theory Spec2Isabelle
  imports Complex_Main "HOL-Library.Monad_Syntax"
begin

section \<open>Python exceptions\<close>

text \<open>
  Every exception the modelled methods can raise is a value; a method that can raise
  returns \<open>error + 'a\<close> with the exception on the left.
\<close>

datatype error =
  ValueError | IndexError | UnboundLocalError | AssertionError | AttributeError | AxisError

definition bind_err :: "error + 'a \<Rightarrow> ('a \<Rightarrow> error + 'b) \<Rightarrow> error + 'b" where
  "bind_err m f = (case m of Inl e \<Rightarrow> Inl e | Inr x \<Rightarrow> f x)"

text \<open>Reading an attribute of the configuration object: a missing one raises.\<close>

definition attr :: "'a option \<Rightarrow> error + 'a" where
  "attr v = (case v of None \<Rightarrow> Inl AttributeError | Some x \<Rightarrow> Inr x)"

section \<open>Array elements\<close>

text \<open>
  The analysis works on float64 arrays. An element is modelled as an exact rational
  (\<open>Fin\<close>) or as \<open>NonFin\<close>, which stands for any of inf, -inf and nan. Rounding and
  overflow are not modelled. numpy does not raise on a division by zero, it yields a
  non-finite element (and a warning), and so does \<open>fdiv\<close>. In the analysis a non-finite
  divisor only ever meets a non-finite dividend (both stem from the same division by a
  zero integration time, or from a mean over an empty axis), so the quotient is
  non-finite as well.
\<close>

datatype flt = Fin rat | NonFin

fun fadd :: "flt \<Rightarrow> flt \<Rightarrow> flt" where
  "fadd (Fin a) (Fin b) = Fin (a + b)"
| "fadd _ _ = NonFin"

fun fsub :: "flt \<Rightarrow> flt \<Rightarrow> flt" where
  "fsub (Fin a) (Fin b) = Fin (a - b)"
| "fsub _ _ = NonFin"

fun fmul :: "flt \<Rightarrow> flt \<Rightarrow> flt" where
  "fmul (Fin a) (Fin b) = Fin (a * b)"
| "fmul _ _ = NonFin"

fun fdiv :: "flt \<Rightarrow> flt \<Rightarrow> flt" where
  "fdiv (Fin a) (Fin b) = (if b = 0 then NonFin else Fin (a / b))"
| "fdiv _ _ = NonFin"

definition fsum :: "flt list \<Rightarrow> flt" where
  "fsum xs = foldr fadd xs (Fin 0)"

text \<open>The mean of no element at all is 0/0, that is nan.\<close>

definition fmean :: "flt list \<Rightarrow> flt" where
  "fmean xs = fdiv (fsum xs) (Fin (of_nat (length xs)))"

section \<open>numpy arrays\<close>

text \<open>
  An array is its shape and its elements in row-major (C) order, as numpy stores the
  result of \<open>np.reshape\<close>. Only the operations the analysis uses are modelled.
\<close>

record ndarray =
  shape :: "nat list"
  elems :: "flt list"

text \<open>\<open>np.reshape(data, shape)\<close> of a 1-D array of finite values.\<close>

definition np_reshape :: "rat list \<Rightarrow> nat list \<Rightarrow> error + ndarray" where
  "np_reshape xs sh =
     (if prod_list sh = length xs then Inr \<lparr>shape = sh, elems = map Fin xs\<rparr>
      else Inl ValueError)"

text \<open>\<open>a / t\<close> for a Python integer \<open>t\<close>: true division of every element.\<close>

definition np_divide_scalar :: "ndarray \<Rightarrow> int \<Rightarrow> ndarray" where
  "np_divide_scalar a t = \<lparr>shape = shape a, elems = map (\<lambda>x. fdiv x (Fin (of_int t))) (elems a)\<rparr>"

definition np_multiply_scalar :: "ndarray \<Rightarrow> int \<Rightarrow> ndarray" where
  "np_multiply_scalar a t = \<lparr>shape = shape a, elems = map (\<lambda>x. fmul x (Fin (of_int t))) (elems a)\<rparr>"

text \<open>
  \<open>a[:, i]\<close>, \<open>a[:, :, i]\<close> and \<open>a[:, :, :, i]\<close> on an array of 2, 3 and 4 axes: a full
  slice on every axis but the last, which is indexed at \<open>i\<close>.
\<close>

definition index_last :: "nat \<Rightarrow> ndarray \<Rightarrow> error + ndarray" where
  "index_last i a =
     (if shape a = [] then Inl IndexError
      else if i < last (shape a) then
        Inr \<lparr>shape = butlast (shape a),
             elems = map (\<lambda>k. elems a ! (k * last (shape a) + i))
                       [0..<prod_list (butlast (shape a))]\<rparr>
      else Inl IndexError)"

text \<open>
  Elementwise \<open>a - b\<close> and \<open>a / b\<close>; the operands of the analysis are two slices of one
  array and have the same shape.
\<close>

definition np_subtract :: "ndarray \<Rightarrow> ndarray \<Rightarrow> ndarray" where
  "np_subtract a b = \<lparr>shape = shape a, elems = map2 fsub (elems a) (elems b)\<rparr>"

definition np_divide :: "ndarray \<Rightarrow> ndarray \<Rightarrow> ndarray" where
  "np_divide a b = \<lparr>shape = shape a, elems = map2 fdiv (elems a) (elems b)\<rparr>"

text \<open>\<open>np.mean(a, axis=0)\<close>.\<close>

definition np_mean0 :: "ndarray \<Rightarrow> error + ndarray" where
  "np_mean0 a =
     (case shape a of
        [] \<Rightarrow> Inl AxisError
      | n # rest \<Rightarrow>
          Inr \<lparr>shape = rest,
               elems = map (\<lambda>j. fmean (map (\<lambda>k. elems a ! (k * prod_list rest + j)) [0..<n]))
                         [0..<prod_list rest]\<rparr>)"

section \<open>The configuration object\<close>

text \<open>
  One \<open>NVConfiguration\<close> serves every program class. An attribute that was never set
  is \<open>None\<close>; reading it raises \<open>AttributeError\<close>.
\<close>

record nvconfig =
  readout_integration_treg :: "int option"
  adc_channel :: "int option"
  laser_gate_pmod :: "int option"
  relax_delay_treg :: "int option"
  mw_channel :: "int option"
  mw_nqz :: "int option"
  mw_gain :: "int option"
  nsweep_points :: "int option"
  pre_init :: "bool option"
  reps :: "int option"
  laser_power :: "rat option"
  mw_start_freg :: "int option"
  mw_start_fMHz :: "rat option"
  mw_end_fMHz :: "rat option"
  adc_trigger_offset_treg :: "int option"
  mw_freg :: "int option"
  mw_start_treg :: "int option"
  mw_end_treg :: "int option"
  mw_delta_treg :: "int option"
  laser_initialize_treg :: "int option"
  mw_delay_treg :: "int option"
  adc_trig_offset_treg :: "int option"
  mw_pi2_treg :: "int option"
  scaling_mode :: "string option"
  scaling_factor :: "rat option"
  delay_start_treg :: "int option"
  delay_end_treg :: "int option"
  laser_on_treg :: "int option"
  readout_reference_start_treg :: "int option"
  laser_readout_offset_treg :: "int option"
  mw_readout_delay_treg :: "int option"

section \<open>Sweeps and the program object\<close>

text \<open>
  A register of a generator channel, as \<open>get_gen_reg\<close> and \<open>new_gen_reg\<close> of the
  control library hand it out: the channel and the register's name.
\<close>

datatype reg = Reg (reg_channel: int) (reg_name: string)

text \<open>
  A sweep object (\<open>QickSweep\<close> or \<open>NVQickSweep\<close>): the class, the swept register,
  start, stop, the number of points, and the keyword arguments only some callers give.
\<close>

datatype sweep = Sweep
  (sweep_class: string) (sweep_reg: reg) (sweep_start: rat) (sweep_stop: rat)
  (sweep_expts: int) (sweep_label: "string option") (sweep_mw_channel: "int option")
  (sweep_scaling_mode: "string option") (sweep_scaling_factor: "rat option")

text \<open>
  The attributes of a program object that the analysis reads. \<open>data_shape\<close> is set by
  the base class's \<open>acquire\<close>, \<open>qick_sweeps\<close> by the control library's \<open>add_sweep\<close>.
\<close>

record program =
  cfg :: nvconfig
  data_shape :: "nat list"
  qick_sweeps :: "sweep list"

section \<open>LockinODMR\_johns.analyze\_results\<close>

record odmr_result =
  odmr :: ndarray
  signal :: ndarray
  reference :: ndarray
  odmr_contrast :: ndarray
  frequencies :: "rat list"

text \<open>
  The first lines of the method: reshape, divide by the integration time, and pick the
  signal and the reference by the number of axes. When no branch assigns them, the
  first use of \<open>signal\<close> raises \<open>UnboundLocalError\<close>.
\<close>

definition LockinODMR_separate :: "program \<Rightarrow> rat list \<Rightarrow> error + (ndarray \<times> ndarray)" where
  "LockinODMR_separate self data =
     bind_err (np_reshape data (data_shape self)) (\<lambda>data1.
     bind_err (attr (readout_integration_treg (cfg self))) (\<lambda>treg.
       let data2 = np_divide_scalar data1 treg in
       if length (data_shape self) = 2 then
         bind_err (index_last 0 data2) (\<lambda>s. bind_err (index_last 1 data2) (\<lambda>r. Inr (s, r)))
       else if length (data_shape self) = 3 then
         bind_err (index_last 0 data2) (\<lambda>s. bind_err (index_last 1 data2) (\<lambda>r. Inr (s, r)))
       else if length (data_shape self) = 4 then
         bind_err (index_last 0 data2) (\<lambda>s. bind_err (index_last 1 data2) (\<lambda>r. Inr (s, r)))
       else Inl UnboundLocalError))"

text \<open>The loop \<open>for _ in range(len(odmr.shape) - 1)\<close>, with its four means per round.\<close>

primrec LockinODMR_mean_loop ::
  "nat \<Rightarrow> ndarray \<times> ndarray \<times> ndarray \<times> ndarray
     \<Rightarrow> error + (ndarray \<times> ndarray \<times> ndarray \<times> ndarray)" where
  "LockinODMR_mean_loop 0 q = Inr q"
| "LockinODMR_mean_loop (Suc n) q =
     (case q of (od, s, r, c) \<Rightarrow>
        bind_err (np_mean0 od) (\<lambda>od'.
        bind_err (np_mean0 s) (\<lambda>s'.
        bind_err (np_mean0 r) (\<lambda>r'.
        bind_err (np_mean0 c) (\<lambda>c'.
          LockinODMR_mean_loop n (od', s', r', c'))))))"

text \<open>
  \<open>get_sweep_pts\<close> belongs to the control library; it is a parameter of the model.
  \<open>self.qick_sweeps[0]\<close> raises \<open>IndexError\<close> on an empty list.
\<close>

definition LockinODMR_analyze_results ::
  "(sweep \<Rightarrow> rat list) \<Rightarrow> program \<Rightarrow> rat list \<Rightarrow> error + odmr_result" where
  "LockinODMR_analyze_results get_sweep_pts self data =
     bind_err (LockinODMR_separate self data) (\<lambda>(signal0, reference0).
       let odmr0 = np_subtract signal0 reference0;
           odmr_contrast0 =
             np_multiply_scalar (np_divide (np_subtract signal0 reference0) reference0) 100
       in
       bind_err (LockinODMR_mean_loop (length (shape odmr0) - 1)
                   (odmr0, signal0, reference0, odmr_contrast0)) (\<lambda>(od, s, r, c).
       bind_err (case qick_sweeps self of
                   [] \<Rightarrow> Inl IndexError
                 | sw # _ \<Rightarrow> Inr (get_sweep_pts sw)) (\<lambda>fr.
         Inr \<lparr>odmr = od, signal = s, reference = r, odmr_contrast = c, frequencies = fr\<rparr>)))"

section \<open>RabiSweep\_johns.analyze\_results\<close>

record rabi_result =
  rabi_signal :: ndarray
  rabi_reference :: ndarray
  contrast :: ndarray
  sweep_treg :: "rat list"
  sweep_tus :: "rat list"

definition RabiSweep_separate :: "program \<Rightarrow> rat list \<Rightarrow> error + (ndarray \<times> ndarray)" where
  "RabiSweep_separate self data =
     bind_err (np_reshape data (data_shape self)) (\<lambda>data1.
     bind_err (attr (readout_integration_treg (cfg self))) (\<lambda>treg.
       let data2 = np_divide_scalar data1 treg in
       if length (data_shape self) = 2 then
         bind_err (index_last 0 data2) (\<lambda>s. bind_err (index_last 1 data2) (\<lambda>r. Inr (s, r)))
       else if length (data_shape self) = 3 then
         bind_err (index_last 0 data2) (\<lambda>s. bind_err (index_last 1 data2) (\<lambda>r. Inr (s, r)))
       else if length (data_shape self) = 4 then
         bind_err (index_last 0 data2) (\<lambda>s. bind_err (index_last 1 data2) (\<lambda>r. Inr (s, r)))
       else Inl UnboundLocalError))"

primrec RabiSweep_mean_loop ::
  "nat \<Rightarrow> ndarray \<times> ndarray \<Rightarrow> error + (ndarray \<times> ndarray)" where
  "RabiSweep_mean_loop 0 q = Inr q"
| "RabiSweep_mean_loop (Suc n) q =
     (case q of (s, r) \<Rightarrow>
        bind_err (np_mean0 s) (\<lambda>s'.
        bind_err (np_mean0 r) (\<lambda>r'.
          RabiSweep_mean_loop n (s', r'))))"

text \<open>
  \<open>cycles2us\<close> belongs to the control library as well; \<open>us_per_cycle\<close> stands for
  \<open>self.cycles2us(1)\<close>.
\<close>

definition RabiSweep_analyze_results ::
  "(sweep \<Rightarrow> rat list) \<Rightarrow> rat \<Rightarrow> program \<Rightarrow> rat list \<Rightarrow> error + rabi_result" where
  "RabiSweep_analyze_results get_sweep_pts us_per_cycle self data =
     bind_err (RabiSweep_separate self data) (\<lambda>(signal0, reference0).
     bind_err (RabiSweep_mean_loop (length (shape signal0) - 1) (signal0, reference0))
       (\<lambda>(s, r).
       let c = np_multiply_scalar (np_divide (np_subtract s r) r) 100 in
       bind_err (case qick_sweeps self of
                   [] \<Rightarrow> Inl IndexError
                 | sw # _ \<Rightarrow> Inr (get_sweep_pts sw)) (\<lambda>pts.
       bind_err (case qick_sweeps self of
                   [] \<Rightarrow> Inl IndexError
                 | sw # _ \<Rightarrow> Inr (map (\<lambda>x. x * us_per_cycle) (get_sweep_pts sw))) (\<lambda>tus.
         Inr \<lparr>rabi_signal = s, rabi_reference = r, contrast = c,
              sweep_treg = pts, sweep_tus = tus\<rparr>))))"

section \<open>acquire\<close>

text \<open>
  The value of the \<open>raw_data\<close> argument. \<open>raw_data is False\<close> compares identities: it
  holds for the object \<open>False\<close> alone, not for \<open>0\<close>, \<open>None\<close> or any other falsy value.
\<close>

datatype pyvalue = PyBool bool | PyNone | PyNumber int

text \<open>What \<open>acquire\<close> returns: the raw acquisition or the analysed result.\<close>

datatype 'r acquired = Raw "rat list" | Analyzed 'r

text \<open>
  \<open>super().acquire\<close> is the base class's method, which is not part of the sources. It is
  a parameter \<open>base_acquire\<close>: given \<open>reads_per_rep\<close>, the remaining arguments and the
  program object, it returns the acquired 1-D array and the object as it has left it
  (it sets \<open>data_shape\<close>), or it raises.
\<close>

definition LockinODMR_acquire ::
  "(nat \<Rightarrow> 'a \<Rightarrow> program \<Rightarrow> error + rat list \<times> program) \<Rightarrow> (sweep \<Rightarrow> rat list)
     \<Rightarrow> pyvalue \<Rightarrow> 'a \<Rightarrow> program \<Rightarrow> error + odmr_result acquired \<times> program" where
  "LockinODMR_acquire base_acquire get_sweep_pts raw_data args self =
     bind_err (base_acquire 2 args self) (\<lambda>(data, self').
       if raw_data = PyBool False then
         bind_err (LockinODMR_analyze_results get_sweep_pts self' data) (\<lambda>d.
           Inr (Analyzed d, self'))
       else Inr (Raw data, self'))"

definition RabiSweep_acquire ::
  "(nat \<Rightarrow> 'a \<Rightarrow> program \<Rightarrow> error + rat list \<times> program) \<Rightarrow> (sweep \<Rightarrow> rat list) \<Rightarrow> rat
     \<Rightarrow> pyvalue \<Rightarrow> 'a \<Rightarrow> program \<Rightarrow> error + rabi_result acquired \<times> program" where
  "RabiSweep_acquire base_acquire get_sweep_pts us_per_cycle raw_data args self =
     bind_err (base_acquire 2 args self) (\<lambda>(data, self').
       if raw_data = PyBool False then
         bind_err (RabiSweep_analyze_results get_sweep_pts us_per_cycle self' data) (\<lambda>d.
           Inr (Analyzed d, self'))
       else Inr (Raw data, self'))"

section \<open>Calls into the control library\<close>

text \<open>
  \<open>initialize\<close> and \<open>body\<close> do nothing but call methods of the base class and of the
  control library, which are not part of the sources. A call is recorded with the
  method's name, its positional and its keyword arguments; a method's run is the list
  of calls it made, in order, and the exception that ended it, if any.
\<close>

datatype arg =
  PyInt int | PyStr string | PyList "int list" | Page reg | Addr reg | SweepArg sweep

datatype hwcall = Call (call_name: string) (call_args: "arg list") (call_kwargs: "(string \<times> arg) list")

datatype step = Emit hwcall | Raise error

fun run :: "step list \<Rightarrow> hwcall list \<times> error option" where
  "run [] = ([], None)"
| "run (Emit c # ss) = (case run ss of (t, e) \<Rightarrow> (c # t, e))"
| "run (Raise e # ss) = ([], Some e)"

text \<open>
  A statement that is one call: its arguments are evaluated first, and a missing
  attribute among them raises before the call is made.
\<close>

definition stmt :: "hwcall option \<Rightarrow> step list" where
  "stmt v = (case v of None \<Rightarrow> [Raise AttributeError] | Some c \<Rightarrow> [Emit c])"

text \<open>A statement that only reads an attribute (\<open>t += self.cfg.x\<close>).\<close>

definition reads :: "'a option \<Rightarrow> step list" where
  "reads v = (case v of None \<Rightarrow> [Raise AttributeError] | Some _ \<Rightarrow> [])"

section \<open>LockinODMR\_johns: initialize and body\<close>

definition LockinODMR_required_cfg :: "string list" where
  "LockinODMR_required_cfg =
     [''readout_integration_treg'', ''adc_channel'', ''laser_gate_pmod'', ''relax_delay_treg'',
      ''mw_channel'', ''mw_nqz'', ''mw_gain'', ''nsweep_points'', ''pre_init'', ''reps'',
      ''laser_power'']"

definition LockinODMR_initialize :: "nvconfig \<Rightarrow> hwcall list \<times> error option" where
  "LockinODMR_initialize c = run (
     [Emit (Call ''check_cfg'' [] [])]
   @ (case mw_gain c of
        None \<Rightarrow> [Raise AttributeError]
      | Some g \<Rightarrow> if g > 30000 then [Raise AssertionError] else [])
   @ stmt (do { ch \<leftarrow> adc_channel c; len \<leftarrow> readout_integration_treg c;
                Some (Call ''declare_readout'' []
                  [(''ch'', PyInt ch), (''freq'', PyInt 0), (''length'', PyInt len), (''sel'', PyStr ''input'')]) })
   @ stmt (do { ch \<leftarrow> mw_channel c; nqz \<leftarrow> mw_nqz c;
                Some (Call ''declare_gen'' [] [(''ch'', PyInt ch), (''nqz'', PyInt nqz)]) })
   @ stmt (do { ch \<leftarrow> mw_channel c; f \<leftarrow> mw_start_freg c; g \<leftarrow> mw_gain c;
                len \<leftarrow> readout_integration_treg c;
                Some (Call ''set_pulse_registers'' []
                  [(''ch'', PyInt ch), (''style'', PyStr ''const''), (''freq'', PyInt f), (''gain'', PyInt g),
                   (''length'', PyInt len), (''phase'', PyInt 0), (''stdysel'', PyStr ''zero''),
                   (''mode'', PyStr ''oneshot'')]) })
   @ stmt (do { ch \<leftarrow> mw_channel c;
                Some (Call ''get_gen_reg'' [PyInt ch, PyStr ''freq''] []) })
   @ stmt (do { ch \<leftarrow> mw_channel c; a \<leftarrow> mw_start_fMHz c; b \<leftarrow> mw_end_fMHz c;
                n \<leftarrow> nsweep_points c;
                Some (Call ''add_sweep''
                  [SweepArg (Sweep ''QickSweep'' (Reg ch ''freq'') a b n None None None None)] []) })
   @ [Emit (Call ''synci'' [PyInt 400] [])]
   @ (case pre_init c of
        None \<Rightarrow> [Raise AttributeError]
      | Some b \<Rightarrow>
          if b then
            stmt (do { ch \<leftarrow> mw_channel c; Some (Call ''pulse'' [] [(''ch'', PyInt ch)]) })
          @ stmt (do { p \<leftarrow> laser_gate_pmod c; w \<leftarrow> readout_integration_treg c;
                       Some (Call ''trigger'' []
                         [(''pins'', PyList [p]), (''width'', PyInt w), (''adc_trig_offset'', PyInt 0)]) })
          @ stmt (do { r \<leftarrow> readout_integration_treg c; d \<leftarrow> relax_delay_treg c;
                       Some (Call ''sync_all'' [PyInt (r + d)] []) })
          else []))"

definition LockinODMR_body :: "nvconfig \<Rightarrow> hwcall list \<times> error option" where
  "LockinODMR_body c = run (
     stmt (do { p \<leftarrow> laser_gate_pmod c; r \<leftarrow> readout_integration_treg c;
                off \<leftarrow> adc_trigger_offset_treg c;
                Some (Call ''trigger'' []
                  [(''adcs'', PyList []), (''pins'', PyList [p]), (''width'', PyInt (r + off)),
                   (''adc_trig_offset'', PyInt 0), (''t'', PyInt 0)]) })
   @ stmt (do { a \<leftarrow> adc_channel c; r \<leftarrow> readout_integration_treg c;
                off \<leftarrow> adc_trigger_offset_treg c;
                Some (Call ''trigger'' []
                  [(''adcs'', PyList [a]), (''pins'', PyList []), (''width'', PyInt r),
                   (''adc_trig_offset'', PyInt 0), (''t'', PyInt off)]) })
   @ stmt (do { ch \<leftarrow> mw_channel c; off \<leftarrow> adc_trigger_offset_treg c;
                Some (Call ''pulse'' [] [(''ch'', PyInt ch), (''t'', PyInt off)]) })
   @ stmt (do { p \<leftarrow> laser_gate_pmod c; r \<leftarrow> readout_integration_treg c;
                off \<leftarrow> adc_trigger_offset_treg c; d \<leftarrow> relax_delay_treg c;
                Some (Call ''trigger'' []
                  [(''adcs'', PyList []), (''pins'', PyList [p]), (''width'', PyInt (r + off)),
                   (''adc_trig_offset'', PyInt 0), (''t'', PyInt (r + d + off))]) })
   @ stmt (do { a \<leftarrow> adc_channel c; r \<leftarrow> readout_integration_treg c;
                d \<leftarrow> relax_delay_treg c; off \<leftarrow> adc_trigger_offset_treg c;
                Some (Call ''trigger'' []
                  [(''adcs'', PyList [a]), (''pins'', PyList []), (''width'', PyInt r),
                   (''adc_trig_offset'', PyInt 0), (''t'', PyInt (r + d + 2 * off))]) })
   @ stmt (do { d \<leftarrow> relax_delay_treg c; Some (Call ''sync_all'' [PyInt d] []) })
   @ [Emit (Call ''wait_all'' [] [])])"

section \<open>RabiSweep\_johns: initialize and body\<close>

definition RabiSweep_required_cfg :: "string list" where
  "RabiSweep_required_cfg =
     [''adc_channel'', ''readout_integration_treg'', ''mw_channel'', ''mw_nqz'', ''mw_gain'',
      ''mw_freg'', ''mw_start_treg'', ''mw_end_treg'', ''nsweep_points'', ''pre_init'',
      ''laser_gate_pmod'', ''relax_delay_treg'', ''reps'', ''mw_delta_treg'']"

definition RabiSweep_initialize :: "nvconfig \<Rightarrow> hwcall list \<times> error option" where
  "RabiSweep_initialize c = run (
     [Emit (Call ''check_cfg'' [] [])]
   @ stmt (do { ch \<leftarrow> adc_channel c; len \<leftarrow> readout_integration_treg c;
                Some (Call ''declare_readout'' []
                  [(''ch'', PyInt ch), (''freq'', PyInt 0), (''length'', PyInt len), (''sel'', PyStr ''input'')]) })
   @ stmt (do { ch \<leftarrow> mw_channel c; nqz \<leftarrow> mw_nqz c;
                Some (Call ''declare_gen'' [] [(''ch'', PyInt ch), (''nqz'', PyInt nqz)]) })
   @ stmt (do { ch \<leftarrow> mw_channel c; f \<leftarrow> mw_freg c; g \<leftarrow> mw_gain c;
                Some (Call ''default_pulse_registers'' []
                  [(''ch'', PyInt ch), (''style'', PyStr ''const''), (''freq'', PyInt f), (''gain'', PyInt g),
                   (''phase'', PyInt 0)]) })
   @ stmt (do { ch \<leftarrow> mw_channel c; len \<leftarrow> mw_start_treg c;
                Some (Call ''set_pulse_registers'' [] [(''ch'', PyInt ch), (''length'', PyInt len)]) })
   @ stmt (do { ch \<leftarrow> mw_channel c; v \<leftarrow> mw_start_treg c;
                Some (Call ''new_gen_reg'' [PyInt ch] [(''name'', PyStr ''length''), (''init_val'', PyInt v)]) })
   @ stmt (do { ch \<leftarrow> mw_channel c; a \<leftarrow> mw_start_treg c; b \<leftarrow> mw_end_treg c;
                n \<leftarrow> nsweep_points c;
                Some (Call ''add_sweep''
                  [SweepArg (Sweep ''NVQickSweep'' (Reg ch ''length'') (of_int a) (of_int b) n
                         (Some ''length'') (Some ch) None None)] []) })
   @ [Emit (Call ''synci'' [PyInt 400] [])]
   @ (case pre_init c of
        None \<Rightarrow> [Raise AttributeError]
      | Some b \<Rightarrow>
          if b then
            stmt (do { p \<leftarrow> laser_gate_pmod c; w \<leftarrow> laser_initialize_treg c;
                       off \<leftarrow> adc_trigger_offset_treg c;
                       Some (Call ''trigger'' []
                         [(''pins'', PyList [p]), (''width'', PyInt w), (''adc_trig_offset'', PyInt off)]) })
          @ stmt (do { w \<leftarrow> laser_initialize_treg c; Some (Call ''sync_all'' [PyInt w] []) })
          else [])
   @ [Emit (Call ''wait_all'' [] [])]
   @ stmt (do { d \<leftarrow> relax_delay_treg c; Some (Call ''sync_all'' [PyInt d] []) }))"

text \<open>
  The body reads \<open>self.mw_length_register\<close>, which \<open>initialize\<close> has set; it is the
  second argument here.
\<close>

definition RabiSweep_body :: "nvconfig \<Rightarrow> reg \<Rightarrow> hwcall list \<times> error option" where
  "RabiSweep_body c mw_length_register = run (
     stmt (do { p \<leftarrow> laser_gate_pmod c; w \<leftarrow> laser_initialize_treg c;
                Some (Call ''trigger'' []
                  [(''adcs'', PyList []), (''pins'', PyList [p]), (''width'', PyInt w),
                   (''adc_trig_offset'', PyInt 0), (''t'', PyInt 0)]) })
   @ reads (laser_initialize_treg c)
   @ stmt (do { ch \<leftarrow> mw_channel c; li \<leftarrow> laser_initialize_treg c;
                Some (Call ''pulse'' [] [(''ch'', PyInt ch), (''t'', PyInt (0 + li))]) })
   @ [Emit (Call ''sync'' [Page mw_length_register, Addr mw_length_register] [])]
   @ reads (mw_delay_treg c)
   @ stmt (do { a \<leftarrow> adc_channel c; p \<leftarrow> laser_gate_pmod c;
                r \<leftarrow> readout_integration_treg c; off \<leftarrow> adc_trig_offset_treg c;
                li \<leftarrow> laser_initialize_treg c; md \<leftarrow> mw_delay_treg c;
                Some (Call ''trigger'' []
                  [(''adcs'', PyList [a]), (''pins'', PyList [p]), (''width'', PyInt r),
                   (''adc_trig_offset'', PyInt off), (''t'', PyInt (0 + li + md))]) })
   @ reads (readout_integration_treg c)
   @ stmt (do { p \<leftarrow> laser_gate_pmod c; li \<leftarrow> laser_initialize_treg c;
                md \<leftarrow> mw_delay_treg c; r \<leftarrow> readout_integration_treg c;
                Some (Call ''trigger'' []
                  [(''adcs'', PyList []), (''pins'', PyList [p]), (''width'', PyInt li),
                   (''adc_trig_offset'', PyInt 0), (''t'', PyInt (0 + li + md + r))]) })
   @ reads (mw_delay_treg c)
   @ reads (mw_delay_treg c)
   @ reads (mw_end_treg c)
   @ stmt (do { a \<leftarrow> adc_channel c; p \<leftarrow> laser_gate_pmod c;
                r \<leftarrow> readout_integration_treg c; off \<leftarrow> adc_trig_offset_treg c;
                li \<leftarrow> laser_initialize_treg c; md \<leftarrow> mw_delay_treg c;
                me \<leftarrow> mw_end_treg c;
                Some (Call ''trigger'' []
                  [(''adcs'', PyList [a]), (''pins'', PyList [p]), (''width'', PyInt r),
                   (''adc_trig_offset'', PyInt off),
                   (''t'', PyInt (0 + li + md + r + md + (md + me)))]) })
   @ stmt (do { d \<leftarrow> relax_delay_treg c; Some (Call ''sync_all'' [PyInt d] []) })
   @ [Emit (Call ''wait_all'' [] [])])"

section \<open>T1DelaySweep: initialize and body\<close>

definition T1DelaySweep_required_cfg :: "string list" where
  "T1DelaySweep_required_cfg =
     [''adc_channel'', ''readout_integration_treg'', ''mw_channel'', ''mw_nqz'', ''mw_pi2_treg'',
      ''mw_gain'', ''scaling_mode'', ''delay_start_treg'', ''delay_end_treg'', ''nsweep_points'',
      ''pre_init'', ''laser_gate_pmod'', ''laser_on_treg'', ''relax_delay_treg'', ''reps'',
      ''readout_reference_start_treg'', ''laser_readout_offset_treg'', ''mw_readout_delay_treg'']"

definition T1DelaySweep_initialize :: "nvconfig \<Rightarrow> hwcall list \<times> error option" where
  "T1DelaySweep_initialize c = run (
     [Emit (Call ''check_cfg'' [] [])]
   @ stmt (do { len \<leftarrow> readout_integration_treg c;
                Some (Call ''declare_readout'' []
                  [(''ch'', PyInt 0), (''freq'', PyInt 0), (''length'', PyInt len), (''sel'', PyStr ''input'')]) })
   @ stmt (do { ch \<leftarrow> mw_channel c; nqz \<leftarrow> mw_nqz c;
                Some (Call ''declare_gen'' [] [(''ch'', PyInt ch), (''nqz'', PyInt nqz)]) })
   @ stmt (do { ch \<leftarrow> mw_channel c; f \<leftarrow> mw_freg c; len \<leftarrow> mw_pi2_treg c;
                g \<leftarrow> mw_gain c;
                Some (Call ''default_pulse_registers'' []
                  [(''ch'', PyInt ch), (''style'', PyStr ''const''), (''freq'', PyInt f), (''length'', PyInt len),
                   (''gain'', PyInt g)]) })
   @ stmt (do { ch \<leftarrow> mw_channel c;
                Some (Call ''set_pulse_registers'' [] [(''ch'', PyInt ch), (''phase'', PyInt 0)]) })
   @ stmt (do { ch \<leftarrow> mw_channel c; v \<leftarrow> delay_start_treg c;
                Some (Call ''new_gen_reg'' [PyInt ch] [(''name'', PyStr ''delay''), (''init_val'', PyInt v)]) })
   @ (case scaling_mode c of
        None \<Rightarrow> [Raise AttributeError]
      | Some m \<Rightarrow>
          if m = ''exponential'' then
            stmt (do { ch \<leftarrow> mw_channel c; a \<leftarrow> delay_start_treg c; b \<leftarrow> delay_end_treg c;
                       n \<leftarrow> nsweep_points c; m' \<leftarrow> scaling_mode c; k \<leftarrow> scaling_factor c;
                       Some (Call ''add_sweep''
                         [SweepArg (Sweep ''NVQickSweep'' (Reg ch ''delay'') (of_int a) (of_int b) n
                                None None (Some m') (Some k))] []) })
          else if m = ''linear'' then
            stmt (do { ch \<leftarrow> mw_channel c; a \<leftarrow> delay_start_treg c; b \<leftarrow> delay_end_treg c;
                       n \<leftarrow> nsweep_points c;
                       Some (Call ''add_sweep''
                         [SweepArg (Sweep ''NVQickSweep'' (Reg ch ''delay'') (of_int a) (of_int b) n
                                None None None None)] []) })
          else [])
   @ [Emit (Call ''synci'' [PyInt 400] [])]
   @ (case pre_init c of
        None \<Rightarrow> [Raise AttributeError]
      | Some b \<Rightarrow>
          if b then
            stmt (do { p \<leftarrow> laser_gate_pmod c; w \<leftarrow> laser_on_treg c;
                       Some (Call ''trigger'' []
                         [(''pins'', PyList [p]), (''width'', PyInt w), (''adc_trig_offset'', PyInt 0)]) })
          @ stmt (do { w \<leftarrow> laser_on_treg c; d \<leftarrow> relax_delay_treg c;
                       Some (Call ''sync_all'' [PyInt (w + d)] []) })
          else []))"

text \<open>
  \<open>ttl_readout\<close> is a method of the base class; the body reads \<open>self.delay_register\<close>,
  which \<open>initialize\<close> has set.
\<close>

definition T1DelaySweep_body :: "nvconfig \<Rightarrow> reg \<Rightarrow> hwcall list \<times> error option" where
  "T1DelaySweep_body c delay_register = run (
     stmt (do { ch \<leftarrow> mw_channel c; Some (Call ''pulse'' [] [(''ch'', PyInt ch), (''t'', PyInt 0)]) })
   @ stmt (do { ch \<leftarrow> mw_channel c; t \<leftarrow> mw_pi2_treg c;
                Some (Call ''pulse'' [] [(''ch'', PyInt ch), (''t'', PyInt t)]) })
   @ stmt (do { t \<leftarrow> mw_pi2_treg c; Some (Call ''synci'' [PyInt (t * 2)] []) })
   @ [Emit (Call ''sync'' [Page delay_register, Addr delay_register] [])]
   @ stmt (do { d \<leftarrow> mw_readout_delay_treg c; Some (Call ''sync_all'' [PyInt d] []) })
   @ [Emit (Call ''ttl_readout'' [] [])]
   @ stmt (do { t \<leftarrow> mw_pi2_treg c; Some (Call ''synci'' [PyInt (t * 2)] []) })
   @ [Emit (Call ''sync'' [Page delay_register, Addr delay_register] [])]
   @ stmt (do { d \<leftarrow> mw_readout_delay_treg c; Some (Call ''sync_all'' [PyInt d] []) })
   @ [Emit (Call ''ttl_readout'' [] [])])"

section \<open>Which attributes a configuration provides\<close>

text \<open>
  \<open>required_cfg\<close> lists attribute names; \<open>provides c names\<close> says that the
  configuration \<open>c\<close> has every attribute of the list.
\<close>

definition attributes :: "nvconfig \<Rightarrow> (string \<times> bool) list" where
  "attributes c =
     [(''readout_integration_treg'', readout_integration_treg c \<noteq> None),
      (''adc_channel'', adc_channel c \<noteq> None),
      (''laser_gate_pmod'', laser_gate_pmod c \<noteq> None),
      (''relax_delay_treg'', relax_delay_treg c \<noteq> None),
      (''mw_channel'', mw_channel c \<noteq> None),
      (''mw_nqz'', mw_nqz c \<noteq> None),
      (''mw_gain'', mw_gain c \<noteq> None),
      (''nsweep_points'', nsweep_points c \<noteq> None),
      (''pre_init'', pre_init c \<noteq> None),
      (''reps'', reps c \<noteq> None),
      (''laser_power'', laser_power c \<noteq> None),
      (''mw_start_freg'', mw_start_freg c \<noteq> None),
      (''mw_start_fMHz'', mw_start_fMHz c \<noteq> None),
      (''mw_end_fMHz'', mw_end_fMHz c \<noteq> None),
      (''adc_trigger_offset_treg'', adc_trigger_offset_treg c \<noteq> None),
      (''mw_freg'', mw_freg c \<noteq> None),
      (''mw_start_treg'', mw_start_treg c \<noteq> None),
      (''mw_end_treg'', mw_end_treg c \<noteq> None),
      (''mw_delta_treg'', mw_delta_treg c \<noteq> None),
      (''laser_initialize_treg'', laser_initialize_treg c \<noteq> None),
      (''mw_delay_treg'', mw_delay_treg c \<noteq> None),
      (''adc_trig_offset_treg'', adc_trig_offset_treg c \<noteq> None),
      (''mw_pi2_treg'', mw_pi2_treg c \<noteq> None),
      (''scaling_mode'', scaling_mode c \<noteq> None),
      (''scaling_factor'', scaling_factor c \<noteq> None),
      (''delay_start_treg'', delay_start_treg c \<noteq> None),
      (''delay_end_treg'', delay_end_treg c \<noteq> None),
      (''laser_on_treg'', laser_on_treg c \<noteq> None),
      (''readout_reference_start_treg'', readout_reference_start_treg c \<noteq> None),
      (''laser_readout_offset_treg'', laser_readout_offset_treg c \<noteq> None),
      (''mw_readout_delay_treg'', mw_readout_delay_treg c \<noteq> None)]"

definition provides :: "nvconfig \<Rightarrow> string list \<Rightarrow> bool" where
  "provides c names = list_all (\<lambda>n. map_of (attributes c) n = Some True) names"

section \<open>Arrays in memory\<close>

text \<open>
  Whether \<open>analyze_results\<close> changes the caller's array depends on which arrays share
  a buffer, so the analysis is modelled a second time over an explicit memory. The
  memory is the list of the buffers allocated so far; an address is a position in it.
  An array object is a view of one buffer: the buffer's address, the position in the
  buffer of each of its elements (in row-major order of the view), and its shape.
  \<open>np.reshape\<close> of the input and basic indexing return views of the same buffer; the
  arithmetic operations and \<open>np.mean\<close> allocate a new buffer for their result. No
  statement of either method writes into an existing array.
\<close>

type_synonym heap = "flt list list"

record arr =
  base :: nat
  index :: "nat list"
  ashape :: "nat list"

definition h_read :: "heap \<Rightarrow> arr \<Rightarrow> ndarray" where
  "h_read h a = \<lparr>shape = ashape a, elems = map (\<lambda>i. h ! base a ! i) (index a)\<rparr>"

definition h_alloc :: "ndarray \<Rightarrow> heap \<Rightarrow> arr \<times> heap" where
  "h_alloc v h =
     (\<lparr>base = length h, index = [0..<length (elems v)], ashape = shape v\<rparr>, h @ [elems v])"

definition h_reshape :: "arr \<Rightarrow> nat list \<Rightarrow> error + arr" where
  "h_reshape a sh =
     (if prod_list sh = length (index a) then Inr (a\<lparr>ashape := sh\<rparr>) else Inl ValueError)"

definition h_index_last :: "nat \<Rightarrow> arr \<Rightarrow> error + arr" where
  "h_index_last i a =
     (if ashape a = [] then Inl IndexError
      else if i < last (ashape a) then
        Inr \<lparr>base = base a,
             index = map (\<lambda>k. index a ! (k * last (ashape a) + i))
                       [0..<prod_list (butlast (ashape a))],
             ashape = butlast (ashape a)\<rparr>
      else Inl IndexError)"

definition h_divide_scalar :: "arr \<Rightarrow> int \<Rightarrow> heap \<Rightarrow> arr \<times> heap" where
  "h_divide_scalar a t h = h_alloc (np_divide_scalar (h_read h a) t) h"

definition h_multiply_scalar :: "arr \<Rightarrow> int \<Rightarrow> heap \<Rightarrow> arr \<times> heap" where
  "h_multiply_scalar a t h = h_alloc (np_multiply_scalar (h_read h a) t) h"

definition h_subtract :: "arr \<Rightarrow> arr \<Rightarrow> heap \<Rightarrow> arr \<times> heap" where
  "h_subtract a b h = h_alloc (np_subtract (h_read h a) (h_read h b)) h"

definition h_divide :: "arr \<Rightarrow> arr \<Rightarrow> heap \<Rightarrow> arr \<times> heap" where
  "h_divide a b h = h_alloc (np_divide (h_read h a) (h_read h b)) h"

definition h_mean0 :: "arr \<Rightarrow> heap \<Rightarrow> error + arr \<times> heap" where
  "h_mean0 a h = (case np_mean0 (h_read h a) of Inl e \<Rightarrow> Inl e | Inr v \<Rightarrow> Inr (h_alloc v h))"

text \<open>The state a call runs in: the memory and the program object with its \<open>cfg\<close>.\<close>

record pystate =
  memory :: heap
  this :: program

record odmr_arrays =
  h_odmr :: arr
  h_signal :: arr
  h_reference :: arr
  h_odmr_contrast :: arr
  h_frequencies :: "rat list"

record rabi_arrays =
  h_rabi_signal :: arr
  h_rabi_reference :: arr
  h_contrast :: arr
  h_sweep_treg :: "rat list"
  h_sweep_tus :: "rat list"

primrec LockinODMR_mean_loop_heap ::
  "nat \<Rightarrow> arr \<times> arr \<times> arr \<times> arr \<Rightarrow> heap \<Rightarrow> error + (arr \<times> arr \<times> arr \<times> arr) \<times> heap" where
  "LockinODMR_mean_loop_heap 0 q h = Inr (q, h)"
| "LockinODMR_mean_loop_heap (Suc n) q h =
     (case q of (od, s, r, c) \<Rightarrow>
        bind_err (h_mean0 od h) (\<lambda>(od', h1).
        bind_err (h_mean0 s h1) (\<lambda>(s', h2).
        bind_err (h_mean0 r h2) (\<lambda>(r', h3).
        bind_err (h_mean0 c h3) (\<lambda>(c', h4).
          LockinODMR_mean_loop_heap n (od', s', r', c') h4)))))"

text \<open>
  The method on the memory. When it raises, the arrays it had allocated are garbage and
  the memory is as before.
\<close>

definition LockinODMR_separate_heap ::
  "program \<Rightarrow> heap \<Rightarrow> arr \<Rightarrow> error + (arr \<times> arr) \<times> heap" where
  "LockinODMR_separate_heap self h data =
     bind_err (h_reshape data (data_shape self)) (\<lambda>data1.
     bind_err (attr (readout_integration_treg (cfg self))) (\<lambda>treg.
       case h_divide_scalar data1 treg h of (data2, h1) \<Rightarrow>
       if length (data_shape self) = 2 then
         bind_err (h_index_last 0 data2) (\<lambda>s.
         bind_err (h_index_last 1 data2) (\<lambda>r. Inr ((s, r), h1)))
       else if length (data_shape self) = 3 then
         bind_err (h_index_last 0 data2) (\<lambda>s.
         bind_err (h_index_last 1 data2) (\<lambda>r. Inr ((s, r), h1)))
       else if length (data_shape self) = 4 then
         bind_err (h_index_last 0 data2) (\<lambda>s.
         bind_err (h_index_last 1 data2) (\<lambda>r. Inr ((s, r), h1)))
       else Inl UnboundLocalError))"

definition LockinODMR_analyze_results_steps ::
  "(sweep \<Rightarrow> rat list) \<Rightarrow> program \<Rightarrow> heap \<Rightarrow> arr \<Rightarrow> error + odmr_arrays \<times> heap" where
  "LockinODMR_analyze_results_steps get_sweep_pts self h data =
     bind_err (LockinODMR_separate_heap self h data) (\<lambda>((signal0, reference0), h1).
       case h_subtract signal0 reference0 h1 of (odmr0, h2) \<Rightarrow>
       case h_subtract signal0 reference0 h2 of (diff, h3) \<Rightarrow>
       case h_divide diff reference0 h3 of (ratio, h4) \<Rightarrow>
       case h_multiply_scalar ratio 100 h4 of (odmr_contrast0, h5) \<Rightarrow>
       bind_err (LockinODMR_mean_loop_heap (length (ashape odmr0) - 1)
                   (odmr0, signal0, reference0, odmr_contrast0) h5) (\<lambda>((od, s, r, c), h6).
       bind_err (case qick_sweeps self of
                   [] \<Rightarrow> Inl IndexError
                 | sw # _ \<Rightarrow> Inr (get_sweep_pts sw)) (\<lambda>fr.
         Inr (\<lparr>h_odmr = od, h_signal = s, h_reference = r, h_odmr_contrast = c,
               h_frequencies = fr\<rparr>, h6))))"

definition LockinODMR_analyze_results_heap ::
  "(sweep \<Rightarrow> rat list) \<Rightarrow> pystate \<Rightarrow> arr \<Rightarrow> (error + odmr_arrays) \<times> pystate" where
  "LockinODMR_analyze_results_heap get_sweep_pts st data =
     (case LockinODMR_analyze_results_steps get_sweep_pts (this st) (memory st) data of
        Inl e \<Rightarrow> (Inl e, st)
      | Inr (d, h) \<Rightarrow> (Inr d, st\<lparr>memory := h\<rparr>))"

primrec RabiSweep_mean_loop_heap ::
  "nat \<Rightarrow> arr \<times> arr \<Rightarrow> heap \<Rightarrow> error + (arr \<times> arr) \<times> heap" where
  "RabiSweep_mean_loop_heap 0 q h = Inr (q, h)"
| "RabiSweep_mean_loop_heap (Suc n) q h =
     (case q of (s, r) \<Rightarrow>
        bind_err (h_mean0 s h) (\<lambda>(s', h1).
        bind_err (h_mean0 r h1) (\<lambda>(r', h2).
          RabiSweep_mean_loop_heap n (s', r') h2)))"

definition RabiSweep_separate_heap ::
  "program \<Rightarrow> heap \<Rightarrow> arr \<Rightarrow> error + (arr \<times> arr) \<times> heap" where
  "RabiSweep_separate_heap self h data =
     bind_err (h_reshape data (data_shape self)) (\<lambda>data1.
     bind_err (attr (readout_integration_treg (cfg self))) (\<lambda>treg.
       case h_divide_scalar data1 treg h of (data2, h1) \<Rightarrow>
       if length (data_shape self) = 2 then
         bind_err (h_index_last 0 data2) (\<lambda>s.
         bind_err (h_index_last 1 data2) (\<lambda>r. Inr ((s, r), h1)))
       else if length (data_shape self) = 3 then
         bind_err (h_index_last 0 data2) (\<lambda>s.
         bind_err (h_index_last 1 data2) (\<lambda>r. Inr ((s, r), h1)))
       else if length (data_shape self) = 4 then
         bind_err (h_index_last 0 data2) (\<lambda>s.
         bind_err (h_index_last 1 data2) (\<lambda>r. Inr ((s, r), h1)))
       else Inl UnboundLocalError))"

definition RabiSweep_analyze_results_steps ::
  "(sweep \<Rightarrow> rat list) \<Rightarrow> rat \<Rightarrow> program \<Rightarrow> heap \<Rightarrow> arr \<Rightarrow> error + rabi_arrays \<times> heap" where
  "RabiSweep_analyze_results_steps get_sweep_pts us_per_cycle self h data =
     bind_err (RabiSweep_separate_heap self h data) (\<lambda>((signal0, reference0), h1).
     bind_err (RabiSweep_mean_loop_heap (length (ashape signal0) - 1)
                 (signal0, reference0) h1) (\<lambda>((s, r), h2).
       case h_subtract s r h2 of (diff, h3) \<Rightarrow>
       case h_divide diff r h3 of (ratio, h4) \<Rightarrow>
       case h_multiply_scalar ratio 100 h4 of (c, h5) \<Rightarrow>
       bind_err (case qick_sweeps self of
                   [] \<Rightarrow> Inl IndexError
                 | sw # _ \<Rightarrow> Inr (get_sweep_pts sw)) (\<lambda>pts.
       bind_err (case qick_sweeps self of
                   [] \<Rightarrow> Inl IndexError
                 | sw # _ \<Rightarrow> Inr (map (\<lambda>x. x * us_per_cycle) (get_sweep_pts sw))) (\<lambda>tus.
         Inr (\<lparr>h_rabi_signal = s, h_rabi_reference = r, h_contrast = c,
               h_sweep_treg = pts, h_sweep_tus = tus\<rparr>, h5)))))"

definition RabiSweep_analyze_results_heap ::
  "(sweep \<Rightarrow> rat list) \<Rightarrow> rat \<Rightarrow> pystate \<Rightarrow> arr \<Rightarrow> (error + rabi_arrays) \<times> pystate" where
  "RabiSweep_analyze_results_heap get_sweep_pts us_per_cycle st data =
     (case RabiSweep_analyze_results_steps get_sweep_pts us_per_cycle (this st) (memory st) data of
        Inl e \<Rightarrow> (Inl e, st)
      | Inr (d, h) \<Rightarrow> (Inr d, st\<lparr>memory := h\<rparr>))"

section \<open>Notions used to state the properties\<close>

text \<open>The rational a finite element stands for.\<close>

fun val :: "flt \<Rightarrow> rat" where
  "val (Fin r) = r"
| "val NonFin = 0"

text \<open>
  The mean over all leading axes at once: the array of one entry per index \<open>j\<close> of the
  last axis, each the arithmetic mean of the elements at \<open>j\<close> over every combination
  of the leading indices.
\<close>

definition mean_over_leading_axes :: "ndarray \<Rightarrow> ndarray" where
  "mean_over_leading_axes a =
     \<lparr>shape = [last (shape a)],
      elems = map (\<lambda>j. fmean (map (\<lambda>l. elems a ! (l * last (shape a) + j))
                                [0..<prod_list (butlast (shape a))]))
                [0..<last (shape a)]\<rparr>"

text \<open>
  The slice at index \<open>i\<close> of the last axis of the input, reshaped to \<open>sh\<close> and
  divided by \<open>t\<close>, written out element by element; and one element of the input
  divided by \<open>t\<close>.
\<close>

definition normalized_slice :: "nat list \<Rightarrow> int \<Rightarrow> rat list \<Rightarrow> nat \<Rightarrow> ndarray" where
  "normalized_slice sh t data i =
     \<lparr>shape = butlast sh,
      elems = map (\<lambda>k. fdiv (Fin (data ! (k * last sh + i))) (Fin (of_int t)))
                [0..<prod_list (butlast sh)]\<rparr>"


text \<open>The sweeps a run has handed to \<open>add_sweep\<close>, in order.\<close>

definition registered_sweeps :: "hwcall list \<Rightarrow> sweep list" where
  "registered_sweeps t =
     concat (map (\<lambda>c. case c of
                         Call name [SweepArg sw] _ \<Rightarrow> if name = ''add_sweep'' then [sw] else []
                       | _ \<Rightarrow> []) t)"

text \<open>What a sweep spans: its register, start, stop and number of points.\<close>

definition sweep_span :: "sweep \<Rightarrow> reg \<times> rat \<times> rat \<times> int" where
  "sweep_span sw = (sweep_reg sw, sweep_start sw, sweep_stop sw, sweep_expts sw)"

text \<open>The names of the calls a run made, and whether it ended without an exception.\<close>

definition call_names :: "hwcall list \<times> error option \<Rightarrow> string list" where
  "call_names r = map call_name (fst r)"

definition completes :: "hwcall list \<times> error option \<Rightarrow> bool" where
  "completes r = (snd r = None)"

text \<open>The memory has only grown: every buffer it held is still there, unchanged.\<close>

definition grows :: "heap \<Rightarrow> heap \<Rightarrow> bool" where
  "grows h h' = (length h \<le> length h' \<and> take (length h) h' = h)"

text \<open>
  An array object represents a value: its buffer exists and reading it gives the value.
  \<open>sim\<close>: a step on the memory ends like the step on values, with results related.
\<close>

definition rep :: "heap \<Rightarrow> arr \<Rightarrow> ndarray \<Rightarrow> bool" where
  "rep h a v = (base a < length h \<and> h_read h a = v)"

definition sim :: "('a \<Rightarrow> 'b \<Rightarrow> bool) \<Rightarrow> error + 'a \<Rightarrow> error + 'b \<Rightarrow> bool" where
  "sim R m m' = (case m' of Inl e \<Rightarrow> m = Inl e | Inr v \<Rightarrow> (case m of Inl _ \<Rightarrow> False | Inr a \<Rightarrow> R a v))"

text \<open>The values of a result whose arrays live in the memory.\<close>

definition read_odmr :: "heap \<Rightarrow> odmr_arrays \<Rightarrow> odmr_result" where
  "read_odmr h d =
     \<lparr>odmr = h_read h (h_odmr d), signal = h_read h (h_signal d),
      reference = h_read h (h_reference d), odmr_contrast = h_read h (h_odmr_contrast d),
      frequencies = h_frequencies d\<rparr>"

definition read_rabi :: "heap \<Rightarrow> rabi_arrays \<Rightarrow> rabi_result" where
  "read_rabi h d =
     \<lparr>rabi_signal = h_read h (h_rabi_signal d), rabi_reference = h_read h (h_rabi_reference d),
      contrast = h_read h (h_contrast d), sweep_treg = h_sweep_treg d,
      sweep_tus = h_sweep_tus d\<rparr>"

section \<open>Concrete instances\<close>

text \<open>
  A configuration with no attribute set, and a program object that has the integration
  time 1, one sweep and a given \<open>data_shape\<close>.
\<close>

definition unset_cfg :: nvconfig where
  "unset_cfg = \<lparr>readout_integration_treg = None, adc_channel = None, laser_gate_pmod = None,
     relax_delay_treg = None, mw_channel = None, mw_nqz = None, mw_gain = None,
     nsweep_points = None, pre_init = None, reps = None, laser_power = None,
     mw_start_freg = None, mw_start_fMHz = None, mw_end_fMHz = None,
     adc_trigger_offset_treg = None, mw_freg = None, mw_start_treg = None,
     mw_end_treg = None, mw_delta_treg = None, laser_initialize_treg = None,
     mw_delay_treg = None, adc_trig_offset_treg = None, mw_pi2_treg = None,
     scaling_mode = None, scaling_factor = None, delay_start_treg = None,
     delay_end_treg = None, laser_on_treg = None, readout_reference_start_treg = None,
     laser_readout_offset_treg = None, mw_readout_delay_treg = None\<rparr>"

definition example_sweep :: sweep where
  "example_sweep = Sweep ''QickSweep'' (Reg 1 ''freq'') 2800 2900 1 None None None None"

definition example_program :: "nat list \<Rightarrow> program" where
  "example_program sh =
     \<lparr>cfg = unset_cfg\<lparr>readout_integration_treg := Some 1\<rparr>,
      data_shape = sh, qick_sweeps = [example_sweep]\<rparr>"

text \<open>A stand-in for the control library's \<open>get_sweep_pts\<close>.\<close>

definition example_get_sweep_pts :: "sweep \<Rightarrow> rat list" where
  "example_get_sweep_pts sw = [sweep_start sw, sweep_stop sw]"


text \<open>A configuration with every attribute set, for the concrete instances.\<close>

definition full_cfg :: nvconfig where
  "full_cfg = \<lparr>readout_integration_treg = Some 100, adc_channel = Some 0,
     laser_gate_pmod = Some 0, relax_delay_treg = Some 50, mw_channel = Some 1,
     mw_nqz = Some 1, mw_gain = Some 5000, nsweep_points = Some 10, pre_init = Some False,
     reps = Some 3, laser_power = Some 1, mw_start_freg = Some 1000,
     mw_start_fMHz = Some 2800, mw_end_fMHz = Some 2900, adc_trigger_offset_treg = Some 5,
     mw_freg = Some 1200, mw_start_treg = Some 4, mw_end_treg = Some 40,
     mw_delta_treg = Some 4, laser_initialize_treg = Some 200, mw_delay_treg = Some 10,
     adc_trig_offset_treg = Some 5, mw_pi2_treg = Some 8, scaling_mode = Some ''linear'',
     scaling_factor = Some 2, delay_start_treg = Some 10, delay_end_treg = Some 1000,
     laser_on_treg = Some 300, readout_reference_start_treg = Some 150,
     laser_readout_offset_treg = Some 20, mw_readout_delay_treg = Some 30\<rparr>"

text \<open>
  A base class for the concrete instances: it hands out \<open>reads_per_rep\<close> values per
  repetition for two repetitions and sets \<open>data_shape\<close> accordingly.
\<close>

definition example_base_acquire :: "nat \<Rightarrow> unit \<Rightarrow> program \<Rightarrow> error + rat list \<times> program" where
  "example_base_acquire reads_per_rep args self =
     Inr (map of_nat [1..<2 * reads_per_rep + 1], self\<lparr>data_shape := [2, reads_per_rep]\<rparr>)"

text \<open>An input array of four values in the only buffer of the memory.\<close>

definition example_state :: "nat list \<Rightarrow> pystate" where
  "example_state sh = \<lparr>memory = [[Fin 2, Fin 1, Fin 1, Fin 2]], this = example_program sh\<rparr>"

definition example_input :: arr where
  "example_input = \<lparr>base = 0, index = [0, 1, 2, 3], ashape = [4]\<rparr>"

section \<open>Properties of the analysis\<close>

lemma fsum_char: "fsum xs = (if NonFin \<in> set xs then NonFin else Fin (sum_list (map val xs)))"
proof (induction xs)
  case Nil
  show ?case by (simp add: fsum_def)
next
  case (Cons x xs)
  then show ?case by (cases x) (auto simp: fsum_def)
qed

lemma fmean_Nil: "fmean [] = NonFin"
  by (simp add: fmean_def fsum_def)

lemma fmean_char:
  "fmean (map f [0..<n]) =
     (if n = 0 \<or> (\<exists>i<n. f i = NonFin) then NonFin
      else Fin ((\<Sum>i<n. val (f i)) / of_nat n))"
proof -
  have s: "sum_list (map val (map f [0..<n])) = (\<Sum>i<n. val (f i))"
    by (simp add: interv_sum_list_conv_sum_set_nat comp_def atLeast0LessThan)
  have m: "NonFin \<in> set (map f [0..<n]) \<longleftrightarrow> (\<exists>i<n. f i = NonFin)"
  proof
    assume "NonFin \<in> set (map f [0..<n])"
    then obtain i where "i < n" "f i = NonFin" by auto
    then show "\<exists>i<n. f i = NonFin" by blast
  next
    assume "\<exists>i<n. f i = NonFin"
    then obtain i where i: "i < n" "f i = NonFin" by blast
    then have "f i \<in> f ` {0..<n}" by (intro imageI) simp
    with i(2) show "NonFin \<in> set (map f [0..<n])" by simp
  qed
  show ?thesis
    unfolding fmean_def fsum_char m s by simp
qed

lemma sum_blocks:
  fixes h :: "nat \<Rightarrow> rat"
  shows "(\<Sum>l<A * B. h l) = (\<Sum>j<B. \<Sum>k<A. h (k * B + j))"
proof -
  have "(\<Sum>l<A * B. h l) = (\<Sum>k<A. sum h {k * B..<k * B + B})"
    by (simp add: sum.nat_group)
  also have "\<dots> = (\<Sum>k<A. \<Sum>j<B. h (k * B + j))"
  proof (rule sum.cong[OF refl])
    fix k
    have "sum h {0 + k * B..<B + k * B} = (\<Sum>j = 0..<B. h (j + k * B))"
      by (rule sum.shift_bounds_nat_ivl)
    then show "sum h {k * B..<k * B + B} = (\<Sum>j<B. h (k * B + j))"
      by (simp add: add.commute atLeast0LessThan)
  qed
  also have "\<dots> = (\<Sum>j<B. \<Sum>k<A. h (k * B + j))"
    by (rule sum.swap)
  finally show ?thesis .
qed

lemma ex_blocks:
  "(\<exists>l<A * B. P l) \<longleftrightarrow> (\<exists>j<B. \<exists>k<A. P (k * B + (j::nat)))"
proof
  assume "\<exists>l<A * B. P l"
  then obtain l where l: "l < A * B" "P l" by blast
  then have B: "0 < B" by (cases B) auto
  have "l mod B < B" using B by simp
  moreover have "l div B < A" using l(1) B by (simp add: less_mult_imp_div_less)
  moreover have "P (l div B * B + l mod B)" using l(2) by simp
  ultimately show "\<exists>j<B. \<exists>k<A. P (k * B + j)" by blast
next
  assume "\<exists>j<B. \<exists>k<A. P (k * B + j)"
  then obtain j k where jk: "j < B" "k < A" "P (k * B + j)" by blast
  have "k * B + j < Suc k * B" using jk(1) by simp
  also have "\<dots> \<le> A * B" using jk(2) by (intro mult_le_mono1) simp
  finally show "\<exists>l<A * B. P l" using jk(3) by blast
qed

lemma fmean_of_fmeans:
  "fmean (map (\<lambda>j. fmean (map (\<lambda>k. g (k * B + j)) [0..<A])) [0..<B])
     = fmean (map g [0..<A * B])"
proof (cases "A = 0 \<or> B = 0")
  case True
  then show ?thesis by (auto simp: fmean_char fmean_Nil)
next
  case False
  then have A: "0 < A" and B: "0 < B" by auto
  show ?thesis
  proof (cases "\<exists>l<A * B. g l = NonFin")
    case True
    then have "\<exists>j<B. \<exists>k<A. g (k * B + j) = NonFin" by (simp add: ex_blocks)
    with True A B show ?thesis by (auto simp: fmean_char)
  next
    case fin: False
    then have nf: "\<not> (\<exists>j<B. \<exists>k<A. g (k * B + j) = NonFin)" by (simp add: ex_blocks)
    have "(\<Sum>j<B. (\<Sum>k<A. val (g (k * B + j))) / of_nat A) / of_nat B
            = (\<Sum>l<A * B. val (g l)) / of_nat (A * B)"
      by (simp add: sum_blocks[of "\<lambda>l. val (g l)"] sum_divide_distrib[symmetric])
    moreover have "fmean (map (\<lambda>j. fmean (map (\<lambda>k. g (k * B + j)) [0..<A])) [0..<B])
       = Fin ((\<Sum>j<B. (\<Sum>k<A. val (g (k * B + j))) / of_nat A) / of_nat B)"
    proof -
      have inner: "fmean (map (\<lambda>k. g (k * B + j)) [0..<A])
                     = Fin ((\<Sum>k<A. val (g (k * B + j))) / of_nat A)" if "j < B" for j
        using nf A that by (simp add: fmean_char)
      have "map (\<lambda>j. fmean (map (\<lambda>k. g (k * B + j)) [0..<A])) [0..<B]
              = map (\<lambda>j. Fin ((\<Sum>k<A. val (g (k * B + j))) / of_nat A)) [0..<B]"
        by (rule map_cong[OF refl]) (simp add: inner)
      then show ?thesis using B by (simp add: fmean_char)
    qed
    moreover have "fmean (map g [0..<A * B]) = Fin ((\<Sum>l<A * B. val (g l)) / of_nat (A * B))"
      using fin A B by (simp add: fmean_char)
    ultimately show ?thesis by simp
  qed
qed

lemma fmean_single: "fmean [x] = x"
  by (cases x) (simp_all add: fmean_def fsum_def)

lemma mol_1d:
  assumes "shape a = [n]" "length (elems a) = n"
  shows "mean_over_leading_axes a = a"
proof -
  have "map (\<lambda>j. elems a ! j) [0..<n] = elems a"
    using assms(2) map_nth[of "elems a"] by simp
  then show ?thesis
    using assms(1) by (simp add: mean_over_leading_axes_def fmean_single)
qed

lemma mol_2d:
  assumes "shape a = [A, n]"
  shows "np_mean0 a = Inr (mean_over_leading_axes a)"
  using assms by (simp add: np_mean0_def mean_over_leading_axes_def)

lemma idx_lt: "j1 < (B::nat) \<Longrightarrow> j < n \<Longrightarrow> j1 * n + j < B * n"
proof -
  assume a: "j1 < B" "j < n"
  have "j1 * n + j < Suc j1 * n" using a(2) by simp
  also have "\<dots> \<le> B * n" using a(1) by (intro mult_le_mono1) simp
  finally show ?thesis .
qed

lemma mol_3d:
  assumes "shape a = [A, B, n]"
  shows "bind_err (np_mean0 a) np_mean0 = Inr (mean_over_leading_axes a)"
proof -
  define b where "b = \<lparr>shape = [B, n],
     elems = map (\<lambda>j. fmean (map (\<lambda>k. elems a ! (k * (B * n) + j)) [0..<A])) [0..<B * n]\<rparr>"
  have 1: "np_mean0 a = Inr b"
    using assms by (simp add: np_mean0_def b_def)
  have 2: "np_mean0 b = Inr \<lparr>shape = [n],
     elems = map (\<lambda>j. fmean (map (\<lambda>j1. elems b ! (j1 * n + j)) [0..<B])) [0..<n]\<rparr>"
    by (simp add: np_mean0_def b_def)
  have 3: "fmean (map (\<lambda>j1. elems b ! (j1 * n + j)) [0..<B])
            = fmean (map (\<lambda>l. elems a ! (l * n + j)) [0..<A * B])" if j: "j < n" for j
  proof -
    have "map (\<lambda>j1. elems b ! (j1 * n + j)) [0..<B]
            = map (\<lambda>j1. fmean (map (\<lambda>k. (\<lambda>l. elems a ! (l * n + j)) (k * B + j1)) [0..<A])) [0..<B]"
    proof (rule map_cong[OF refl])
      fix j1 assume "j1 \<in> set [0..<B]"
      then have "j1 * n + j < B * n" using j by (simp add: idx_lt)
      then have "elems b ! (j1 * n + j)
                   = fmean (map (\<lambda>k. elems a ! (k * (B * n) + (j1 * n + j))) [0..<A])"
        by (simp add: b_def)
      also have "\<dots> = fmean (map (\<lambda>k. elems a ! ((k * B + j1) * n + j)) [0..<A])"
        by (simp add: algebra_simps)
      finally show "elems b ! (j1 * n + j)
                   = fmean (map (\<lambda>k. (\<lambda>l. elems a ! (l * n + j)) (k * B + j1)) [0..<A])" .
    qed
    then have "fmean (map (\<lambda>j1. elems b ! (j1 * n + j)) [0..<B])
            = fmean (map (\<lambda>j1. fmean (map (\<lambda>k. (\<lambda>l. elems a ! (l * n + j)) (k * B + j1)) [0..<A])) [0..<B])"
      by (rule arg_cong)
    also have "\<dots> = fmean (map (\<lambda>l. elems a ! (l * n + j)) [0..<A * B])"
      by (rule fmean_of_fmeans)
    finally show ?thesis .
  qed
  have "map (\<lambda>j. fmean (map (\<lambda>j1. elems b ! (j1 * n + j)) [0..<B])) [0..<n]
        = map (\<lambda>j. fmean (map (\<lambda>l. elems a ! (l * n + j)) [0..<A * B])) [0..<n]"
    by (rule map_cong[OF refl]) (simp add: 3)
  with 1 2 show ?thesis
    using assms by (simp add: bind_err_def mean_over_leading_axes_def)
qed

lemma mean0_shape: "np_mean0 a = Inr b \<Longrightarrow> shape b = tl (shape a)"
  by (auto simp: np_mean0_def split: list.splits)

lemma len1: "length sh = Suc 0 \<longleftrightarrow> (\<exists>a. sh = [a])"
  by (cases sh) auto

lemma len2: "length sh = 2 \<longleftrightarrow> (\<exists>a b. sh = [a, b])"
  by (auto simp: length_Suc_conv numeral_2_eq_2)

lemma len3: "length sh = 3 \<longleftrightarrow> (\<exists>a b c. sh = [a, b, c])"
  by (auto simp: length_Suc_conv numeral_3_eq_3)


lemma mean_loop4:
  assumes sh: "shape od = sh" "shape s = sh" "shape r = sh" "shape c = sh"
    and len: "length sh = 1 \<or> length sh = 2 \<or> length sh = 3"
    and wf: "length (elems od) = prod_list sh" "length (elems s) = prod_list sh"
            "length (elems r) = prod_list sh" "length (elems c) = prod_list sh"
  shows "LockinODMR_mean_loop (length sh - 1) (od, s, r, c)
           = Inr (mean_over_leading_axes od, mean_over_leading_axes s,
                  mean_over_leading_axes r, mean_over_leading_axes c)"
proof -
  consider n where "sh = [n]" | A n where "sh = [A, n]" | A B n where "sh = [A, B, n]"
    using len by (auto simp: len1 len2 len3)
  then show ?thesis
  proof cases
    case 1
    then show ?thesis using sh wf by (simp add: mol_1d)
  next
    case 2
    then show ?thesis using sh by (simp add: mol_2d bind_err_def)
  next
    case 3
    have b: "bind_err (np_mean0 x) np_mean0 = Inr (mean_over_leading_axes x)"
      if "shape x = sh" for x using that 3 by (simp add: mol_3d)
    obtain od1 s1 r1 c1 where m: "np_mean0 od = Inr od1" "np_mean0 s = Inr s1"
        "np_mean0 r = Inr r1" "np_mean0 c = Inr c1"
      using sh 3 by (simp add: np_mean0_def)
    have "np_mean0 od1 = Inr (mean_over_leading_axes od)"
         "np_mean0 s1 = Inr (mean_over_leading_axes s)"
         "np_mean0 r1 = Inr (mean_over_leading_axes r)"
         "np_mean0 c1 = Inr (mean_over_leading_axes c)"
      using b[OF sh(1)] b[OF sh(2)] b[OF sh(3)] b[OF sh(4)] m by (simp_all add: bind_err_def)
    then show ?thesis using 3 m by (simp add: bind_err_def numeral_2_eq_2)
  qed
qed

lemma prod_list_butlast: "sh \<noteq> [] \<Longrightarrow> prod_list (butlast sh) * last sh = prod_list sh"
proof -
  assume "sh \<noteq> []"
  then have "prod_list (butlast sh @ [last sh]) = prod_list sh" by simp
  then show ?thesis by (simp del: append_butlast_last_id)
qed

lemma index_last_normalized:
  assumes "sh \<noteq> []" "prod_list sh = length data" "i < last sh"
  shows "index_last i (np_divide_scalar \<lparr>shape = sh, elems = map Fin data\<rparr> t)
           = Inr (normalized_slice sh t data i)"
proof -
  have "map (\<lambda>k. map (\<lambda>x. fdiv x (Fin (of_int t))) (map Fin data) ! (k * last sh + i))
            [0..<prod_list (butlast sh)]
        = map (\<lambda>k. fdiv (Fin (data ! (k * last sh + i))) (Fin (of_int t)))
            [0..<prod_list (butlast sh)]"
  proof (rule map_cong[OF refl])
    fix k assume "k \<in> set [0..<prod_list (butlast sh)]"
    then have "k * last sh + i < prod_list (butlast sh) * last sh"
      using assms(3) by (simp add: idx_lt)
    then have "k * last sh + i < length data"
      using assms(1,2) by (simp add: prod_list_butlast)
    then show "map (\<lambda>x. fdiv x (Fin (of_int t))) (map Fin data) ! (k * last sh + i)
                 = fdiv (Fin (data ! (k * last sh + i))) (Fin (of_int t))"
      by simp
  qed
  then show ?thesis
    using assms(1,3) by (simp add: index_last_def np_divide_scalar_def normalized_slice_def)
qed

lemma LockinODMR_separate_ok:
  assumes len: "length (data_shape self) = 2 \<or> length (data_shape self) = 3
                  \<or> length (data_shape self) = 4"
    and size: "prod_list (data_shape self) = length data"
    and two: "2 \<le> last (data_shape self)"
    and treg: "readout_integration_treg (cfg self) = Some t"
  shows "LockinODMR_separate self data
           = Inr (normalized_slice (data_shape self) t data 0,
                  normalized_slice (data_shape self) t data 1)"
proof -
  have ne: "data_shape self \<noteq> []" using len by auto
  have 0: "index_last 0 (np_divide_scalar \<lparr>shape = data_shape self, elems = map Fin data\<rparr> t)
             = Inr (normalized_slice (data_shape self) t data 0)"
    using ne size two by (intro index_last_normalized) auto
  have 1: "index_last 1 (np_divide_scalar \<lparr>shape = data_shape self, elems = map Fin data\<rparr> t)
             = Inr (normalized_slice (data_shape self) t data 1)"
    using ne size two by (intro index_last_normalized) auto
  show ?thesis
    using len size treg 0 1
    by (auto simp: LockinODMR_separate_def np_reshape_def attr_def bind_err_def Let_def)
qed

lemma RabiSweep_separate_eq: "RabiSweep_separate self data = LockinODMR_separate self data"
  by (simp add: RabiSweep_separate_def LockinODMR_separate_def)

lemma separate_unbound:
  assumes "length (data_shape self) \<noteq> 2" "length (data_shape self) \<noteq> 3"
          "length (data_shape self) \<noteq> 4"
    and "prod_list (data_shape self) = length data"
    and "readout_integration_treg (cfg self) = Some t"
  shows "LockinODMR_separate self data = Inl UnboundLocalError"
  using assms by (simp add: LockinODMR_separate_def np_reshape_def attr_def bind_err_def Let_def)

lemma separate_Inr_len:
  assumes "LockinODMR_separate self data = Inr q"
  shows "length (data_shape self) = 2 \<or> length (data_shape self) = 3
           \<or> length (data_shape self) = 4"
  using assms
  by (auto simp: LockinODMR_separate_def np_reshape_def attr_def bind_err_def Let_def
           split: if_splits option.splits sum.splits)

lemma slice_shape [simp]: "shape (normalized_slice sh t data i) = butlast sh"
  by (simp add: normalized_slice_def)

lemma slice_length [simp]:
  "length (elems (normalized_slice sh t data i)) = prod_list (butlast sh)"
  by (simp add: normalized_slice_def)


lemma separate_Inr:
  assumes "LockinODMR_separate self data = Inr (s0, r0)"
  shows "\<exists>t. readout_integration_treg (cfg self) = Some t
           \<and> prod_list (data_shape self) = length data
           \<and> 2 \<le> last (data_shape self)
           \<and> s0 = normalized_slice (data_shape self) t data 0
           \<and> r0 = normalized_slice (data_shape self) t data 1"
proof -
  have len: "length (data_shape self) = 2 \<or> length (data_shape self) = 3
               \<or> length (data_shape self) = 4"
    using assms by (rule separate_Inr_len)
  obtain t where t: "readout_integration_treg (cfg self) = Some t"
    using assms
    by (auto simp: LockinODMR_separate_def np_reshape_def attr_def bind_err_def
             split: if_splits option.splits)
  have size: "prod_list (data_shape self) = length data"
    using assms
    by (auto simp: LockinODMR_separate_def np_reshape_def bind_err_def split: if_splits)
  have "\<exists>r. index_last 1 (np_divide_scalar \<lparr>shape = data_shape self, elems = map Fin data\<rparr> t) = Inr r"
    using assms t size len
    by (auto simp: LockinODMR_separate_def np_reshape_def attr_def bind_err_def Let_def
             split: if_splits sum.splits)
  then have two: "2 \<le> last (data_shape self)"
    by (auto simp: index_last_def np_divide_scalar_def split: if_splits)
  show ?thesis
    using LockinODMR_separate_ok[OF len size two t] assms t size two by simp
qed

lemma mean_loop2:
  assumes sh: "shape s = sh" "shape r = sh"
    and len: "length sh = 1 \<or> length sh = 2 \<or> length sh = 3"
    and wf: "length (elems s) = prod_list sh" "length (elems r) = prod_list sh"
  shows "RabiSweep_mean_loop (length sh - 1) (s, r)
           = Inr (mean_over_leading_axes s, mean_over_leading_axes r)"
proof -
  consider n where "sh = [n]" | A n where "sh = [A, n]" | A B n where "sh = [A, B, n]"
    using len by (auto simp: len1 len2 len3)
  then show ?thesis
  proof cases
    case 1
    then show ?thesis using sh wf by (simp add: mol_1d)
  next
    case 2
    then show ?thesis using sh by (simp add: mol_2d bind_err_def)
  next
    case 3
    have b: "bind_err (np_mean0 x) np_mean0 = Inr (mean_over_leading_axes x)"
      if "shape x = sh" for x using that 3 by (simp add: mol_3d)
    obtain s1 r1 where m: "np_mean0 s = Inr s1" "np_mean0 r = Inr r1"
      using sh 3 by (simp add: np_mean0_def)
    have "np_mean0 s1 = Inr (mean_over_leading_axes s)"
         "np_mean0 r1 = Inr (mean_over_leading_axes r)"
      using b[OF sh(1)] b[OF sh(2)] m by (simp_all add: bind_err_def)
    then show ?thesis using 3 m by (simp add: bind_err_def numeral_2_eq_2)
  qed
qed

lemma butlast_len:
  "length sh = 2 \<or> length sh = 3 \<or> length sh = 4 \<Longrightarrow>
     length (butlast sh) = 1 \<or> length (butlast sh) = 2 \<or> length (butlast sh) = 3"
  by auto

lemma LockinODMR_analyze_results_char:
  assumes sep: "LockinODMR_separate self data = Inr (s0, r0)"
  shows "LockinODMR_analyze_results pts self data =
     (case qick_sweeps self of
        [] \<Rightarrow> Inl IndexError
      | sw # _ \<Rightarrow>
          Inr \<lparr>odmr = mean_over_leading_axes (np_subtract s0 r0),
               signal = mean_over_leading_axes s0,
               reference = mean_over_leading_axes r0,
               odmr_contrast = mean_over_leading_axes
                 (np_multiply_scalar (np_divide (np_subtract s0 r0) r0) 100),
               frequencies = pts sw\<rparr>)"
proof -
  obtain t where t: "s0 = normalized_slice (data_shape self) t data 0"
                    "r0 = normalized_slice (data_shape self) t data 1"
    using separate_Inr[OF sep] by blast
  have len: "length (butlast (data_shape self)) = 1 \<or> length (butlast (data_shape self)) = 2
               \<or> length (butlast (data_shape self)) = 3"
    using separate_Inr_len[OF sep] by (rule butlast_len)
  have loop: "LockinODMR_mean_loop (length (butlast (data_shape self)) - 1)
          (np_subtract s0 r0, s0, r0, np_multiply_scalar (np_divide (np_subtract s0 r0) r0) 100)
        = Inr (mean_over_leading_axes (np_subtract s0 r0), mean_over_leading_axes s0,
               mean_over_leading_axes r0,
               mean_over_leading_axes (np_multiply_scalar (np_divide (np_subtract s0 r0) r0) 100))"
    using len
    by (intro mean_loop4)
       (simp_all add: t np_subtract_def np_divide_def np_multiply_scalar_def)
  have sh: "shape (np_subtract s0 r0) = butlast (data_shape self)"
    by (simp add: t np_subtract_def)
  show ?thesis
    using sep loop
    by (simp add: LockinODMR_analyze_results_def bind_err_def Let_def sh
             split: list.splits)
qed

lemma RabiSweep_analyze_results_char:
  assumes sep: "LockinODMR_separate self data = Inr (s0, r0)"
  shows "RabiSweep_analyze_results pts u self data =
     (case qick_sweeps self of
        [] \<Rightarrow> Inl IndexError
      | sw # _ \<Rightarrow>
          Inr \<lparr>rabi_signal = mean_over_leading_axes s0,
               rabi_reference = mean_over_leading_axes r0,
               contrast = np_multiply_scalar
                 (np_divide (np_subtract (mean_over_leading_axes s0) (mean_over_leading_axes r0))
                    (mean_over_leading_axes r0)) 100,
               sweep_treg = pts sw, sweep_tus = map (\<lambda>x. x * u) (pts sw)\<rparr>)"
proof -
  obtain t where t: "s0 = normalized_slice (data_shape self) t data 0"
                    "r0 = normalized_slice (data_shape self) t data 1"
    using separate_Inr[OF sep] by blast
  have len: "length (butlast (data_shape self)) = 1 \<or> length (butlast (data_shape self)) = 2
               \<or> length (butlast (data_shape self)) = 3"
    using separate_Inr_len[OF sep] by (rule butlast_len)
  have loop: "RabiSweep_mean_loop (length (butlast (data_shape self)) - 1) (s0, r0)
        = Inr (mean_over_leading_axes s0, mean_over_leading_axes r0)"
    using len by (intro mean_loop2) (simp_all add: t)
  have sh: "shape s0 = butlast (data_shape self)"
    by (simp add: t)
  show ?thesis
    using sep loop
    by (simp add: RabiSweep_analyze_results_def RabiSweep_separate_eq bind_err_def Let_def sh
             split: list.splits)
qed

lemma np_shapes [simp]:
  "shape (np_subtract a b) = shape a"
  "shape (np_divide a b) = shape a"
  "shape (np_multiply_scalar a c) = shape a"
  "shape (np_divide_scalar a c) = shape a"
  by (simp_all add: np_subtract_def np_divide_def np_multiply_scalar_def np_divide_scalar_def)

lemma mol_shape [simp]: "shape (mean_over_leading_axes a) = [last (shape a)]"
  by (simp add: mean_over_leading_axes_def)

lemma mol_length [simp]: "length (elems (mean_over_leading_axes a)) = last (shape a)"
  by (simp add: mean_over_leading_axes_def)





subsection \<open>C1: what LockinODMR\_johns.analyze\_results computes\<close>




subsection \<open>C2: normalise first, separate afterwards\<close>



subsection \<open>C3: the iterated mean over axis 0\<close>



subsection \<open>C8: only 2, 3 or 4 axes are analysed\<close>

text \<open>
  Claim C8. When \<open>data_shape\<close> has a number of axes other than 2, 3 or 4 and the input
  has the size \<open>data_shape\<close> asks for, both \<open>analyze_results\<close> methods raise
  \<open>UnboundLocalError\<close>; and whenever either method returns a result, \<open>data_shape\<close> has
  2, 3 or 4 axes.
\<close>

theorem analyze_results_unbound_for_other_ranks:
  assumes "length (data_shape self) \<notin> {2, 3, 4}"
    and "prod_list (data_shape self) = length data"
    and "readout_integration_treg (cfg self) = Some t"
  shows "LockinODMR_analyze_results get_sweep_pts self data = Inl UnboundLocalError
       \<and> RabiSweep_analyze_results get_sweep_pts us_per_cycle self data = Inl UnboundLocalError
       \<and> (\<forall>self' data' d. LockinODMR_analyze_results get_sweep_pts self' data' = Inr d
             \<longrightarrow> length (data_shape self') \<in> {2, 3, 4})
       \<and> (\<forall>self' data' e. RabiSweep_analyze_results get_sweep_pts us_per_cycle self' data' = Inr e
             \<longrightarrow> length (data_shape self') \<in> {2, 3, 4})"
proof -
  have u: "LockinODMR_separate self data = Inl UnboundLocalError"
    using assms by (intro separate_unbound) auto
  have 1: "LockinODMR_analyze_results get_sweep_pts self data = Inl UnboundLocalError"
    using u by (simp add: LockinODMR_analyze_results_def bind_err_def)
  have 2: "RabiSweep_analyze_results get_sweep_pts us_per_cycle self data = Inl UnboundLocalError"
    using u by (simp add: RabiSweep_analyze_results_def RabiSweep_separate_eq bind_err_def)
  have 3: "length (data_shape self') \<in> {2, 3, 4}"
    if "LockinODMR_analyze_results get_sweep_pts self' data' = Inr d" for self' data' d
  proof -
    from that obtain q where "LockinODMR_separate self' data' = Inr q"
      by (auto simp: LockinODMR_analyze_results_def bind_err_def split: sum.splits)
    then show ?thesis using separate_Inr_len by auto
  qed
  have 4: "length (data_shape self') \<in> {2, 3, 4}"
    if "RabiSweep_analyze_results get_sweep_pts us_per_cycle self' data' = Inr e" for self' data' e
  proof -
    from that obtain q where "LockinODMR_separate self' data' = Inr q"
      by (auto simp: RabiSweep_analyze_results_def RabiSweep_separate_eq bind_err_def
               split: sum.splits)
    then show ?thesis using separate_Inr_len by auto
  qed
  show ?thesis using 1 2 3 4 by blast
qed

text \<open>The theorem on a 1-D \<open>data_shape\<close>.\<close>

theorem analyze_results_unbound_for_other_ranks_witness:
  "LockinODMR_analyze_results example_get_sweep_pts (example_program [4]) [1, 2, 3, 4]
     = Inl UnboundLocalError
   \<and> RabiSweep_analyze_results example_get_sweep_pts 1 (example_program [4]) [1, 2, 3, 4]
     = Inl UnboundLocalError"
proof -
  have "length (data_shape (example_program [4])) \<notin> {2, 3, 4}"
       "prod_list (data_shape (example_program [4])) = length [1, 2, 3, 4 :: rat]"
       "readout_integration_treg (cfg (example_program [4])) = Some 1"
    by (simp_all add: example_program_def unset_cfg_def)
  from analyze_results_unbound_for_other_ranks[OF this, of example_get_sweep_pts 1]
  show ?thesis by blast
qed

subsection \<open>C4: the contrast of RabiSweep\_johns against that of LockinODMR\_johns\<close>

text \<open>
  Claim C4, as amended. On the same input, \<open>data_shape\<close> and configuration, when both
  analyses return, they return the same signal and the same reference. The contrast
  of \<open>RabiSweep_johns\<close> is formed from these averaged traces,
  (signal - reference) / reference * 100; it equals the \<open>odmr_contrast\<close> of
  \<open>LockinODMR_johns\<close> when \<open>data_shape\<close> has two axes, where no axis is averaged.
\<close>

theorem RabiSweep_contrast_from_averaged_traces:
  assumes lock: "LockinODMR_analyze_results get_sweep_pts self data = Inr d"
    and rabi: "RabiSweep_analyze_results get_sweep_pts us_per_cycle self data = Inr e"
  shows "rabi_signal e = signal d \<and> rabi_reference e = reference d
       \<and> contrast e = np_multiply_scalar
                         (np_divide (np_subtract (signal d) (reference d)) (reference d)) 100
       \<and> (length (data_shape self) = 2 \<longrightarrow> contrast e = odmr_contrast d)"
proof -
  from lock obtain s0 r0 where sep: "LockinODMR_separate self data = Inr (s0, r0)"
    by (auto simp: LockinODMR_analyze_results_def bind_err_def split: sum.splits)
  obtain sw rest where sw: "qick_sweeps self = sw # rest"
    using lock LockinODMR_analyze_results_char[OF sep, of get_sweep_pts]
    by (cases "qick_sweeps self") auto
  have d: "d = \<lparr>odmr = mean_over_leading_axes (np_subtract s0 r0),
               signal = mean_over_leading_axes s0,
               reference = mean_over_leading_axes r0,
               odmr_contrast = mean_over_leading_axes
                 (np_multiply_scalar (np_divide (np_subtract s0 r0) r0) 100),
               frequencies = get_sweep_pts sw\<rparr>"
    using lock LockinODMR_analyze_results_char[OF sep, of get_sweep_pts] sw by simp
  have e: "e = \<lparr>rabi_signal = mean_over_leading_axes s0,
               rabi_reference = mean_over_leading_axes r0,
               contrast = np_multiply_scalar
                 (np_divide (np_subtract (mean_over_leading_axes s0) (mean_over_leading_axes r0))
                    (mean_over_leading_axes r0)) 100,
               sweep_treg = get_sweep_pts sw,
               sweep_tus = map (\<lambda>x. x * us_per_cycle) (get_sweep_pts sw)\<rparr>"
    using rabi RabiSweep_analyze_results_char[OF sep, of get_sweep_pts us_per_cycle] sw by simp
  have two: "contrast e = odmr_contrast d" if l2: "length (data_shape self) = 2"
  proof -
    obtain t where t: "s0 = normalized_slice (data_shape self) t data 0"
                      "r0 = normalized_slice (data_shape self) t data 1"
      using separate_Inr[OF sep] by blast
    obtain A w where shp: "data_shape self = [A, w]" using l2 by (auto simp: len2)
    have "mean_over_leading_axes x = x" if "shape x = [A]" "length (elems x) = A" for x
      using that by (rule mol_1d)
    then have "mean_over_leading_axes s0 = s0" "mean_over_leading_axes r0 = r0"
      "mean_over_leading_axes (np_multiply_scalar (np_divide (np_subtract s0 r0) r0) 100)
         = np_multiply_scalar (np_divide (np_subtract s0 r0) r0) 100"
      by (simp_all add: t shp np_multiply_scalar_def np_divide_def np_subtract_def)
    then show ?thesis by (simp add: d e)
  qed
  show ?thesis using two by (simp add: d e)
qed

text \<open>The theorem on a \<open>data_shape\<close> of \<open>(2, 2)\<close>.\<close>

theorem RabiSweep_contrast_from_averaged_traces_witness:
  "\<exists>d e. LockinODMR_analyze_results example_get_sweep_pts (example_program [2, 2]) [2, 1, 1, 2]
            = Inr d
        \<and> RabiSweep_analyze_results example_get_sweep_pts 1 (example_program [2, 2]) [2, 1, 1, 2]
            = Inr e
        \<and> rabi_signal e = signal d \<and> rabi_reference e = reference d
        \<and> contrast e = odmr_contrast d"
proof -
  have sep: "LockinODMR_separate (example_program [2, 2]) [2, 1, 1, 2]
               = Inr (normalized_slice (data_shape (example_program [2, 2])) 1 [2, 1, 1, 2] 0,
                      normalized_slice (data_shape (example_program [2, 2])) 1 [2, 1, 1, 2] 1)"
    by (rule LockinODMR_separate_ok) (simp_all add: example_program_def unset_cfg_def)
  have sw: "qick_sweeps (example_program [2, 2]) = [example_sweep]"
    by (simp add: example_program_def)
  obtain d where d: "LockinODMR_analyze_results example_get_sweep_pts (example_program [2, 2])
                       [2, 1, 1, 2] = Inr d"
    using LockinODMR_analyze_results_char[OF sep, of example_get_sweep_pts] sw by simp
  obtain e where e: "RabiSweep_analyze_results example_get_sweep_pts 1 (example_program [2, 2])
                       [2, 1, 1, 2] = Inr e"
    using RabiSweep_analyze_results_char[OF sep, of example_get_sweep_pts 1] sw by simp
  have "length (data_shape (example_program [2, 2])) = 2"
    by (simp add: example_program_def)
  with RabiSweep_contrast_from_averaged_traces[OF d e] d e show ?thesis by blast
qed

text \<open>
  As stated, C4 fails with two repetitions of one sweep point: signal 2 over reference
  1, then signal 1 over reference 2. The mean of the two contrasts, 100 and -50, is 25;
  the contrast of the means, both 3/2, is 0.
\<close>

theorem RabiSweep_contrast_differs_from_odmr_contrast:
  "map_sum id (\<lambda>d. elems (odmr_contrast d))
     (LockinODMR_analyze_results example_get_sweep_pts (example_program [2, 1, 2]) [2, 1, 1, 2])
     = Inr [Fin 25]
   \<and> map_sum id (\<lambda>e. elems (contrast e))
     (RabiSweep_analyze_results example_get_sweep_pts 1 (example_program [2, 1, 2]) [2, 1, 1, 2])
     = Inr [Fin 0]"
proof -
  have u: "[0..<2] = [0, Suc 0]" by (simp add: upt_rec numeral_2_eq_2)
  show ?thesis
    by (simp add: example_program_def unset_cfg_def LockinODMR_analyze_results_def
        RabiSweep_analyze_results_def RabiSweep_separate_def
        LockinODMR_separate_def np_reshape_def attr_def bind_err_def index_last_def
        np_divide_scalar_def np_subtract_def np_divide_def np_multiply_scalar_def
        np_mean0_def fmean_def fsum_def u numeral_2_eq_2 example_sweep_def)
qed

section \<open>Properties of initialize and body\<close>

lemma provides_Lockin:
  "provides c LockinODMR_required_cfg \<longleftrightarrow>
     readout_integration_treg c \<noteq> None \<and> adc_channel c \<noteq> None \<and> laser_gate_pmod c \<noteq> None
   \<and> relax_delay_treg c \<noteq> None \<and> mw_channel c \<noteq> None \<and> mw_nqz c \<noteq> None
   \<and> mw_gain c \<noteq> None \<and> nsweep_points c \<noteq> None \<and> pre_init c \<noteq> None
   \<and> reps c \<noteq> None \<and> laser_power c \<noteq> None"
  by (simp add: provides_def LockinODMR_required_cfg_def attributes_def)

lemma provides_Rabi:
  "provides c RabiSweep_required_cfg \<longleftrightarrow>
     adc_channel c \<noteq> None \<and> readout_integration_treg c \<noteq> None \<and> mw_channel c \<noteq> None
   \<and> mw_nqz c \<noteq> None \<and> mw_gain c \<noteq> None \<and> mw_freg c \<noteq> None \<and> mw_start_treg c \<noteq> None
   \<and> mw_end_treg c \<noteq> None \<and> nsweep_points c \<noteq> None \<and> pre_init c \<noteq> None
   \<and> laser_gate_pmod c \<noteq> None \<and> relax_delay_treg c \<noteq> None \<and> reps c \<noteq> None
   \<and> mw_delta_treg c \<noteq> None"
  by (simp add: provides_def RabiSweep_required_cfg_def attributes_def)

lemma provides_T1:
  "provides c T1DelaySweep_required_cfg \<longleftrightarrow>
     adc_channel c \<noteq> None \<and> readout_integration_treg c \<noteq> None \<and> mw_channel c \<noteq> None
   \<and> mw_nqz c \<noteq> None \<and> mw_pi2_treg c \<noteq> None \<and> mw_gain c \<noteq> None
   \<and> scaling_mode c \<noteq> None \<and> delay_start_treg c \<noteq> None \<and> delay_end_treg c \<noteq> None
   \<and> nsweep_points c \<noteq> None \<and> pre_init c \<noteq> None \<and> laser_gate_pmod c \<noteq> None
   \<and> laser_on_treg c \<noteq> None \<and> relax_delay_treg c \<noteq> None \<and> reps c \<noteq> None
   \<and> readout_reference_start_treg c \<noteq> None \<and> laser_readout_offset_treg c \<noteq> None
   \<and> mw_readout_delay_treg c \<noteq> None"
  by (simp add: provides_def T1DelaySweep_required_cfg_def attributes_def)

lemma run_Emit [simp]:
  "run (Emit c # ss) = (c # fst (run ss), snd (run ss))"
  by (simp add: case_prod_beta)

declare run.simps(2) [simp del]

lemma run_error: "snd (run ss) = Some e \<Longrightarrow> Raise e \<in> set ss"
  by (induction ss rule: run.induct) (auto split: prod.splits)

lemma stmt_Some [simp]: "stmt (Some c) = [Emit c]"
  by (simp add: stmt_def)

lemma stmt_None [simp]: "stmt None = [Raise AttributeError]"
  by (simp add: stmt_def)

lemma reads_Some [simp]: "reads (Some x) = []"
  by (simp add: reads_def)

lemma reads_None [simp]: "reads None = [Raise AttributeError]"
  by (simp add: reads_def)

lemma stmt_raises: "Raise e \<in> set (stmt v) \<Longrightarrow> e = AttributeError"
  by (cases v) auto

subsection \<open>C9: the gain guard of LockinODMR\_johns.initialize\<close>

text \<open>
  Claim C9. On a configuration that provides every attribute of \<open>required_cfg\<close>,
  \<open>LockinODMR_johns.initialize\<close> raises \<open>AssertionError\<close> exactly when \<open>mw_gain\<close>
  exceeds 30000; it has then called \<open>check_cfg\<close> and nothing else, so neither the
  readout nor the generator is declared. Gains from 30001 to \<open>2^15 - 1\<close> are rejected.
\<close>

theorem LockinODMR_initialize_gain_guard:
  assumes req: "provides c LockinODMR_required_cfg" and g: "mw_gain c = Some g"
  shows "(snd (LockinODMR_initialize c) = Some AssertionError) = (g > 30000)
       \<and> (g > 30000 \<longrightarrow>
            LockinODMR_initialize c = ([Call ''check_cfg'' [] []], Some AssertionError))
       \<and> (30001 \<le> g \<and> g \<le> 2 ^ 15 - 1 \<longrightarrow>
            snd (LockinODMR_initialize c) = Some AssertionError)"
proof -
  have big: "LockinODMR_initialize c = ([Call ''check_cfg'' [] []], Some AssertionError)"
    if "g > 30000"
    using that g by (simp add: LockinODMR_initialize_def)
  have small: "snd (LockinODMR_initialize c) \<noteq> Some AssertionError" if le: "\<not> g > 30000"
  proof
    assume "snd (LockinODMR_initialize c) = Some AssertionError"
    then have "Raise AssertionError \<in> set (
         [Emit (Call ''check_cfg'' [] [])]
       @ (case mw_gain c of
            None \<Rightarrow> [Raise AttributeError]
          | Some g \<Rightarrow> if g > 30000 then [Raise AssertionError] else [])
       @ stmt (do { ch \<leftarrow> adc_channel c; len \<leftarrow> readout_integration_treg c;
                    Some (Call ''declare_readout'' []
                      [(''ch'', PyInt ch), (''freq'', PyInt 0), (''length'', PyInt len), (''sel'', PyStr ''input'')]) })
       @ stmt (do { ch \<leftarrow> mw_channel c; nqz \<leftarrow> mw_nqz c;
                    Some (Call ''declare_gen'' [] [(''ch'', PyInt ch), (''nqz'', PyInt nqz)]) })
       @ stmt (do { ch \<leftarrow> mw_channel c; f \<leftarrow> mw_start_freg c; g \<leftarrow> mw_gain c;
                    len \<leftarrow> readout_integration_treg c;
                    Some (Call ''set_pulse_registers'' []
                      [(''ch'', PyInt ch), (''style'', PyStr ''const''), (''freq'', PyInt f), (''gain'', PyInt g),
                       (''length'', PyInt len), (''phase'', PyInt 0), (''stdysel'', PyStr ''zero''),
                       (''mode'', PyStr ''oneshot'')]) })
       @ stmt (do { ch \<leftarrow> mw_channel c;
                    Some (Call ''get_gen_reg'' [PyInt ch, PyStr ''freq''] []) })
       @ stmt (do { ch \<leftarrow> mw_channel c; a \<leftarrow> mw_start_fMHz c; b \<leftarrow> mw_end_fMHz c;
                    n \<leftarrow> nsweep_points c;
                    Some (Call ''add_sweep''
                      [SweepArg (Sweep ''QickSweep'' (Reg ch ''freq'') a b n None None None None)] []) })
       @ [Emit (Call ''synci'' [PyInt 400] [])]
       @ (case pre_init c of
            None \<Rightarrow> [Raise AttributeError]
          | Some b \<Rightarrow>
              if b then
                stmt (do { ch \<leftarrow> mw_channel c; Some (Call ''pulse'' [] [(''ch'', PyInt ch)]) })
              @ stmt (do { p \<leftarrow> laser_gate_pmod c; w \<leftarrow> readout_integration_treg c;
                           Some (Call ''trigger'' []
                             [(''pins'', PyList [p]), (''width'', PyInt w), (''adc_trig_offset'', PyInt 0)]) })
              @ stmt (do { r \<leftarrow> readout_integration_treg c; d \<leftarrow> relax_delay_treg c;
                           Some (Call ''sync_all'' [PyInt (r + d)] []) })
              else []))"
      unfolding LockinODMR_initialize_def by (rule run_error)
    then show False
      using le g by (auto split: option.splits if_splits dest: stmt_raises)
  qed
  show ?thesis using big small by auto
qed

text \<open>The theorem at the gains 32767 and 30000.\<close>

theorem LockinODMR_initialize_gain_guard_witness:
  "LockinODMR_initialize (full_cfg\<lparr>mw_gain := Some 32767\<rparr>)
     = ([Call ''check_cfg'' [] []], Some AssertionError)
   \<and> snd (LockinODMR_initialize (full_cfg\<lparr>mw_gain := Some 30000\<rparr>)) \<noteq> Some AssertionError"
proof -
  have 1: "provides (full_cfg\<lparr>mw_gain := Some 32767\<rparr>) LockinODMR_required_cfg"
    by (simp add: provides_Lockin full_cfg_def)
  have 2: "provides (full_cfg\<lparr>mw_gain := Some 30000\<rparr>) LockinODMR_required_cfg"
    by (simp add: provides_Lockin full_cfg_def)
  have g1: "mw_gain (full_cfg\<lparr>mw_gain := Some 32767\<rparr>) = Some 32767" by simp
  have g2: "mw_gain (full_cfg\<lparr>mw_gain := Some 30000\<rparr>) = Some 30000" by simp
  from LockinODMR_initialize_gain_guard[OF 1 g1] LockinODMR_initialize_gain_guard[OF 2 g2]
  show ?thesis by simp
qed

lemma registered_sweeps_Nil [simp]: "registered_sweeps [] = []"
  by (simp add: registered_sweeps_def)

lemma registered_sweeps_Cons [simp]:
  "registered_sweeps (Call name as kw # t) =
     (case as of [SweepArg sw] \<Rightarrow> if name = ''add_sweep'' then [sw] else [] | _ \<Rightarrow> [])
     @ registered_sweeps t"
  by (simp add: registered_sweeps_def)

lemma LockinODMR_initialize_sweep:
  assumes "provides c LockinODMR_required_cfg"
    and "mw_start_freg c \<noteq> None" "mw_start_fMHz c \<noteq> None" "mw_end_fMHz c \<noteq> None"
    and "the (mw_gain c) \<le> 30000"
  shows "snd (LockinODMR_initialize c) = None
       \<and> map sweep_span (registered_sweeps (fst (LockinODMR_initialize c)))
           = [(Reg (the (mw_channel c)) ''freq'', the (mw_start_fMHz c), the (mw_end_fMHz c),
               the (nsweep_points c))]"
  using assms
  by (auto simp: provides_Lockin LockinODMR_initialize_def sweep_span_def)

lemma RabiSweep_initialize_sweep:
  assumes "provides c RabiSweep_required_cfg"
    and "pre_init c = Some True \<longrightarrow>
           laser_initialize_treg c \<noteq> None \<and> adc_trigger_offset_treg c \<noteq> None"
  shows "snd (RabiSweep_initialize c) = None
       \<and> map sweep_span (registered_sweeps (fst (RabiSweep_initialize c)))
           = [(Reg (the (mw_channel c)) ''length'', of_int (the (mw_start_treg c)),
               of_int (the (mw_end_treg c)), the (nsweep_points c))]"
  using assms
  by (auto simp: provides_Rabi RabiSweep_initialize_def sweep_span_def)

lemma T1DelaySweep_initialize_sweep:
  assumes "provides c T1DelaySweep_required_cfg" and "mw_freg c \<noteq> None"
    and "scaling_mode c = Some ''linear''
           \<or> scaling_mode c = Some ''exponential'' \<and> scaling_factor c \<noteq> None"
  shows "snd (T1DelaySweep_initialize c) = None
       \<and> map sweep_span (registered_sweeps (fst (T1DelaySweep_initialize c)))
           = [(Reg (the (mw_channel c)) ''delay'', of_int (the (delay_start_treg c)),
               of_int (the (delay_end_treg c)), the (nsweep_points c))]"
  using assms
  by (auto simp: provides_T1 T1DelaySweep_initialize_def sweep_span_def)

subsection \<open>C5: one sweep per program\<close>

text \<open>
  Claim C5, as amended. \<open>initialize\<close> completes and has registered exactly one sweep,
  spanning the configured start and end in \<open>nsweep_points\<close> points, in these cases.
  \<open>LockinODMR_johns\<close>: the configuration provides \<open>required_cfg\<close> and also
  \<open>mw_start_freg\<close>, \<open>mw_start_fMHz\<close> and \<open>mw_end_fMHz\<close>, and \<open>mw_gain\<close> is at most
  30000; the sweep is over the frequency register. \<open>RabiSweep_johns\<close>: the
  configuration provides \<open>required_cfg\<close> and, when \<open>pre_init\<close> is set, also
  \<open>laser_initialize_treg\<close> and \<open>adc_trigger_offset_treg\<close>; the sweep is over the
  \<open>length\<close> register. \<open>T1DelaySweep\<close>: the configuration provides
  \<open>required_cfg\<close> and \<open>mw_freg\<close>, and \<open>scaling_mode\<close> is \<open>linear\<close>, or
  \<open>exponential\<close> with a \<open>scaling_factor\<close>; the sweep is over the \<open>delay\<close> register.
\<close>

theorem initialize_registers_one_sweep:
  "(provides c LockinODMR_required_cfg
      \<and> mw_start_freg c \<noteq> None \<and> mw_start_fMHz c \<noteq> None \<and> mw_end_fMHz c \<noteq> None
      \<and> the (mw_gain c) \<le> 30000
    \<longrightarrow> snd (LockinODMR_initialize c) = None
       \<and> map sweep_span (registered_sweeps (fst (LockinODMR_initialize c)))
           = [(Reg (the (mw_channel c)) ''freq'', the (mw_start_fMHz c), the (mw_end_fMHz c),
               the (nsweep_points c))])
 \<and> (provides c RabiSweep_required_cfg
      \<and> (pre_init c = Some True \<longrightarrow>
           laser_initialize_treg c \<noteq> None \<and> adc_trigger_offset_treg c \<noteq> None)
    \<longrightarrow> snd (RabiSweep_initialize c) = None
       \<and> map sweep_span (registered_sweeps (fst (RabiSweep_initialize c)))
           = [(Reg (the (mw_channel c)) ''length'', of_int (the (mw_start_treg c)),
               of_int (the (mw_end_treg c)), the (nsweep_points c))])
 \<and> (provides c T1DelaySweep_required_cfg \<and> mw_freg c \<noteq> None
      \<and> (scaling_mode c = Some ''linear''
           \<or> scaling_mode c = Some ''exponential'' \<and> scaling_factor c \<noteq> None)
    \<longrightarrow> snd (T1DelaySweep_initialize c) = None
       \<and> map sweep_span (registered_sweeps (fst (T1DelaySweep_initialize c)))
           = [(Reg (the (mw_channel c)) ''delay'', of_int (the (delay_start_treg c)),
               of_int (the (delay_end_treg c)), the (nsweep_points c))])"
  using LockinODMR_initialize_sweep[of c] RabiSweep_initialize_sweep[of c]
        T1DelaySweep_initialize_sweep[of c]
  by blast

lemma full_cfg_provides:
  "provides full_cfg LockinODMR_required_cfg"
  "provides full_cfg RabiSweep_required_cfg"
  "provides full_cfg T1DelaySweep_required_cfg"
  by (simp_all add: provides_Lockin provides_Rabi provides_T1 full_cfg_def)

text \<open>The theorem on the configuration with every attribute set.\<close>

theorem initialize_registers_one_sweep_witness:
  "map sweep_span (registered_sweeps (fst (LockinODMR_initialize full_cfg)))
     = [(Reg 1 ''freq'', 2800, 2900, 10)]
 \<and> map sweep_span (registered_sweeps (fst (RabiSweep_initialize full_cfg)))
     = [(Reg 1 ''length'', 4, 40, 10)]
 \<and> map sweep_span (registered_sweeps (fst (T1DelaySweep_initialize full_cfg)))
     = [(Reg 1 ''delay'', 10, 1000, 10)]"
proof -
  have "mw_start_freg full_cfg \<noteq> None \<and> mw_start_fMHz full_cfg \<noteq> None
      \<and> mw_end_fMHz full_cfg \<noteq> None \<and> the (mw_gain full_cfg) \<le> 30000"
    "pre_init full_cfg = Some True \<longrightarrow>
       laser_initialize_treg full_cfg \<noteq> None \<and> adc_trigger_offset_treg full_cfg \<noteq> None"
    "mw_freg full_cfg \<noteq> None" "scaling_mode full_cfg = Some ''linear''"
    by (simp_all add: full_cfg_def)
  with initialize_registers_one_sweep[of full_cfg] full_cfg_provides
  have "map sweep_span (registered_sweeps (fst (LockinODMR_initialize full_cfg)))
           = [(Reg (the (mw_channel full_cfg)) ''freq'', the (mw_start_fMHz full_cfg),
               the (mw_end_fMHz full_cfg), the (nsweep_points full_cfg))]"
       "map sweep_span (registered_sweeps (fst (RabiSweep_initialize full_cfg)))
           = [(Reg (the (mw_channel full_cfg)) ''length'', of_int (the (mw_start_treg full_cfg)),
               of_int (the (mw_end_treg full_cfg)), the (nsweep_points full_cfg))]"
       "map sweep_span (registered_sweeps (fst (T1DelaySweep_initialize full_cfg)))
           = [(Reg (the (mw_channel full_cfg)) ''delay'', of_int (the (delay_start_treg full_cfg)),
               of_int (the (delay_end_treg full_cfg)), the (nsweep_points full_cfg))]"
    by blast+
  then show ?thesis by (simp add: full_cfg_def)
qed

text \<open>
  As stated, C5 fails on configurations that provide \<open>required_cfg\<close>. With a
  \<open>scaling_mode\<close> that is neither \<open>exponential\<close> nor \<open>linear\<close>,
  \<open>T1DelaySweep.initialize\<close> completes and has registered no sweep. With an
  \<open>mw_gain\<close> of 30001, \<open>LockinODMR_johns.initialize\<close> stops at its guard and has
  registered no sweep either.
\<close>

theorem initialize_without_sweep:
  "provides (full_cfg\<lparr>scaling_mode := Some ''quadratic''\<rparr>) T1DelaySweep_required_cfg
 \<and> snd (T1DelaySweep_initialize (full_cfg\<lparr>scaling_mode := Some ''quadratic''\<rparr>)) = None
 \<and> registered_sweeps (fst (T1DelaySweep_initialize (full_cfg\<lparr>scaling_mode := Some ''quadratic''\<rparr>)))
     = []
 \<and> provides (full_cfg\<lparr>mw_gain := Some 30001\<rparr>) LockinODMR_required_cfg
 \<and> snd (LockinODMR_initialize (full_cfg\<lparr>mw_gain := Some 30001\<rparr>)) = Some AssertionError
 \<and> registered_sweeps (fst (LockinODMR_initialize (full_cfg\<lparr>mw_gain := Some 30001\<rparr>))) = []"
  by (simp add: provides_T1 provides_Lockin full_cfg_def T1DelaySweep_initialize_def
        LockinODMR_initialize_def)

lemma run_stmt_completes:
  "snd (run (stmt v @ ss)) = None \<longleftrightarrow> (\<exists>c. v = Some c) \<and> snd (run ss) = None"
  by (cases v) simp_all

lemma run_stmt_completes_last:
  "snd (run (stmt v)) = None \<longleftrightarrow> (\<exists>c. v = Some c)"
  by (cases v) simp_all

lemma run_reads_completes:
  "snd (run (reads v @ ss)) = None \<longleftrightarrow> (\<exists>x. v = Some x) \<and> snd (run ss) = None"
  by (cases v) simp_all

lemmas completes_simps =
  completes_def run_stmt_completes run_stmt_completes_last run_reads_completes
  bind_eq_Some_conv

lemma LockinODMR_body_names:
  assumes "completes (LockinODMR_body c)"
  shows "call_names (LockinODMR_body c)
           = [''trigger'', ''trigger'', ''pulse'', ''trigger'', ''trigger'', ''sync_all'',
              ''wait_all'']"
  using assms unfolding LockinODMR_body_def
  by (auto simp: completes_simps call_names_def)

lemma LockinODMR_initialize_names:
  assumes "completes (LockinODMR_initialize c)"
  shows "call_names (LockinODMR_initialize c)
           = [''check_cfg'', ''declare_readout'', ''declare_gen'', ''set_pulse_registers'',
              ''get_gen_reg'', ''add_sweep'', ''synci'']
             @ (if pre_init c = Some True then [''pulse'', ''trigger'', ''sync_all''] else [])"
  using assms unfolding LockinODMR_initialize_def
  by (cases "pre_init c"; cases "mw_gain c")
     (auto simp: completes_simps call_names_def split: if_splits)

lemma RabiSweep_body_names:
  assumes "completes (RabiSweep_body c r)"
  shows "call_names (RabiSweep_body c r)
           = [''trigger'', ''pulse'', ''sync'', ''trigger'', ''trigger'', ''trigger'',
              ''sync_all'', ''wait_all'']"
  using assms unfolding RabiSweep_body_def
  by (auto simp: completes_simps call_names_def)

lemma RabiSweep_initialize_names:
  assumes "completes (RabiSweep_initialize c)"
  shows "call_names (RabiSweep_initialize c)
           = [''check_cfg'', ''declare_readout'', ''declare_gen'', ''default_pulse_registers'',
              ''set_pulse_registers'', ''new_gen_reg'', ''add_sweep'', ''synci'']
             @ (if pre_init c = Some True then [''trigger'', ''sync_all''] else [])
             @ [''wait_all'', ''sync_all'']"
  using assms unfolding RabiSweep_initialize_def
  by (cases "pre_init c") (auto simp: completes_simps call_names_def)

lemma T1DelaySweep_body_names:
  assumes "completes (T1DelaySweep_body c r)"
  shows "call_names (T1DelaySweep_body c r)
           = [''pulse'', ''pulse'', ''synci'', ''sync'', ''sync_all'', ''ttl_readout'',
              ''synci'', ''sync'', ''sync_all'', ''ttl_readout'']"
  using assms unfolding T1DelaySweep_body_def
  by (auto simp: completes_simps call_names_def)

lemma T1DelaySweep_initialize_names:
  assumes "completes (T1DelaySweep_initialize c)"
  shows "call_names (T1DelaySweep_initialize c)
           = [''check_cfg'', ''declare_readout'', ''declare_gen'', ''default_pulse_registers'',
              ''set_pulse_registers'', ''new_gen_reg'']
             @ (if scaling_mode c = Some ''exponential'' \<or> scaling_mode c = Some ''linear''
                then [''add_sweep''] else [])
             @ [''synci'']
             @ (if pre_init c = Some True then [''trigger'', ''sync_all''] else [])"
  using assms unfolding T1DelaySweep_initialize_def
  by (cases "pre_init c"; cases "scaling_mode c")
     (auto simp: completes_simps call_names_def split: if_splits)

subsection \<open>C6: the sequence of calls\<close>

text \<open>
  Claim C6, as amended. The \<open>body\<close> of each class makes the same sequence of calls, by
  name, on any two configurations on which it completes. \<open>initialize\<close> does so on any
  two configurations on which it completes and that agree on \<open>pre_init\<close> (for
  \<open>T1DelaySweep\<close> also on whether \<open>scaling_mode\<close> is one of \<open>exponential\<close> and
  \<open>linear\<close>); only the arguments differ.
\<close>

theorem call_sequence_fixed_up_to_pre_init:
  "(completes (LockinODMR_body c1) \<and> completes (LockinODMR_body c2)
      \<longrightarrow> call_names (LockinODMR_body c1) = call_names (LockinODMR_body c2))
 \<and> (completes (RabiSweep_body c1 r1) \<and> completes (RabiSweep_body c2 r2)
      \<longrightarrow> call_names (RabiSweep_body c1 r1) = call_names (RabiSweep_body c2 r2))
 \<and> (completes (T1DelaySweep_body c1 r1) \<and> completes (T1DelaySweep_body c2 r2)
      \<longrightarrow> call_names (T1DelaySweep_body c1 r1) = call_names (T1DelaySweep_body c2 r2))
 \<and> (completes (LockinODMR_initialize c1) \<and> completes (LockinODMR_initialize c2)
      \<and> pre_init c1 = pre_init c2
      \<longrightarrow> call_names (LockinODMR_initialize c1) = call_names (LockinODMR_initialize c2))
 \<and> (completes (RabiSweep_initialize c1) \<and> completes (RabiSweep_initialize c2)
      \<and> pre_init c1 = pre_init c2
      \<longrightarrow> call_names (RabiSweep_initialize c1) = call_names (RabiSweep_initialize c2))
 \<and> (completes (T1DelaySweep_initialize c1) \<and> completes (T1DelaySweep_initialize c2)
      \<and> pre_init c1 = pre_init c2
      \<and> (scaling_mode c1 \<in> {Some ''exponential'', Some ''linear''})
          = (scaling_mode c2 \<in> {Some ''exponential'', Some ''linear''})
      \<longrightarrow> call_names (T1DelaySweep_initialize c1) = call_names (T1DelaySweep_initialize c2))"
proof -
  have 1: "call_names (LockinODMR_body c1) = call_names (LockinODMR_body c2)"
    if "completes (LockinODMR_body c1)" "completes (LockinODMR_body c2)"
    using that by (simp add: LockinODMR_body_names)
  have 2: "call_names (RabiSweep_body c1 r1) = call_names (RabiSweep_body c2 r2)"
    if "completes (RabiSweep_body c1 r1)" "completes (RabiSweep_body c2 r2)"
    using that by (simp add: RabiSweep_body_names)
  have 3: "call_names (T1DelaySweep_body c1 r1) = call_names (T1DelaySweep_body c2 r2)"
    if "completes (T1DelaySweep_body c1 r1)" "completes (T1DelaySweep_body c2 r2)"
    using that by (simp add: T1DelaySweep_body_names)
  have 4: "call_names (LockinODMR_initialize c1) = call_names (LockinODMR_initialize c2)"
    if "completes (LockinODMR_initialize c1)" "completes (LockinODMR_initialize c2)"
       "pre_init c1 = pre_init c2"
    using that by (simp add: LockinODMR_initialize_names)
  have 5: "call_names (RabiSweep_initialize c1) = call_names (RabiSweep_initialize c2)"
    if "completes (RabiSweep_initialize c1)" "completes (RabiSweep_initialize c2)"
       "pre_init c1 = pre_init c2"
    using that by (simp add: RabiSweep_initialize_names)
  have 6: "call_names (T1DelaySweep_initialize c1) = call_names (T1DelaySweep_initialize c2)"
    if "completes (T1DelaySweep_initialize c1)" "completes (T1DelaySweep_initialize c2)"
       "pre_init c1 = pre_init c2"
       "(scaling_mode c1 \<in> {Some ''exponential'', Some ''linear''})
          = (scaling_mode c2 \<in> {Some ''exponential'', Some ''linear''})"
    using that by (simp add: T1DelaySweep_initialize_names)
  show ?thesis using 1 2 3 4 5 6 by blast
qed

lemma full_cfg_completes:
  "completes (LockinODMR_initialize full_cfg)"
  "completes (LockinODMR_initialize (full_cfg\<lparr>pre_init := Some True\<rparr>))"
  "completes (LockinODMR_initialize (full_cfg\<lparr>mw_gain := Some 7\<rparr>))"
  "completes (LockinODMR_body full_cfg)"
  "completes (LockinODMR_body (full_cfg\<lparr>relax_delay_treg := Some 7\<rparr>))"
  by (simp_all add: completes_def full_cfg_def LockinODMR_initialize_def LockinODMR_body_def)

text \<open>The theorem on two pairs of configurations that differ in one number.\<close>

theorem call_sequence_fixed_up_to_pre_init_witness:
  "call_names (LockinODMR_body full_cfg)
     = call_names (LockinODMR_body (full_cfg\<lparr>relax_delay_treg := Some 7\<rparr>))
 \<and> call_names (LockinODMR_initialize full_cfg)
     = call_names (LockinODMR_initialize (full_cfg\<lparr>mw_gain := Some 7\<rparr>))"
proof -
  have "pre_init full_cfg = pre_init (full_cfg\<lparr>mw_gain := Some 7\<rparr>)" by simp
  with call_sequence_fixed_up_to_pre_init[of full_cfg "full_cfg\<lparr>relax_delay_treg := Some 7\<rparr>"]
       call_sequence_fixed_up_to_pre_init[of full_cfg "full_cfg\<lparr>mw_gain := Some 7\<rparr>"]
       full_cfg_completes
  show ?thesis by blast
qed

text \<open>
  As stated, C6 fails: \<open>initialize\<close> branches on \<open>pre_init\<close>. Two configurations
  that both provide \<open>required_cfg\<close> and differ in \<open>pre_init\<close> only make 7 and 10
  calls.
\<close>

theorem LockinODMR_initialize_branches_on_pre_init:
  "provides full_cfg LockinODMR_required_cfg
 \<and> provides (full_cfg\<lparr>pre_init := Some True\<rparr>) LockinODMR_required_cfg
 \<and> completes (LockinODMR_initialize full_cfg)
 \<and> completes (LockinODMR_initialize (full_cfg\<lparr>pre_init := Some True\<rparr>))
 \<and> call_names (LockinODMR_initialize full_cfg)
     = [''check_cfg'', ''declare_readout'', ''declare_gen'', ''set_pulse_registers'',
        ''get_gen_reg'', ''add_sweep'', ''synci'']
 \<and> call_names (LockinODMR_initialize (full_cfg\<lparr>pre_init := Some True\<rparr>))
     = [''check_cfg'', ''declare_readout'', ''declare_gen'', ''set_pulse_registers'',
        ''get_gen_reg'', ''add_sweep'', ''synci'', ''pulse'', ''trigger'', ''sync_all'']"
  by (simp add: provides_Lockin completes_def call_names_def full_cfg_def
        LockinODMR_initialize_def)

section \<open>Properties of acquire\<close>

subsection \<open>C7: acquire\<close>

text \<open>
  Claim C7. Both \<open>acquire\<close> methods ask the base class for two reads per repetition and
  for nothing else: their result depends on the base class only through what it does
  with \<open>reads_per_rep = 2\<close>. With \<open>raw_data\<close> being \<open>False\<close> the result is
  \<open>analyze_results\<close> of the raw acquisition; with \<open>raw_data\<close> being \<open>True\<close> it is
  the raw acquisition itself, as it is with any other value that is not the object
  \<open>False\<close>; and an analysed result is returned only when \<open>raw_data\<close> is \<open>False\<close>.
\<close>

theorem acquire_two_reads_and_raw_data:
  "((\<forall>args self. base1 2 args self = base2 2 args self) \<longrightarrow>
      LockinODMR_acquire base1 g raw a self = LockinODMR_acquire base2 g raw a self
    \<and> RabiSweep_acquire base1 g u raw a self = RabiSweep_acquire base2 g u raw a self)
 \<and> (base1 2 a self = Inr (data, self') \<longrightarrow>
      LockinODMR_acquire base1 g (PyBool False) a self
        = map_sum id (\<lambda>d. (Analyzed d, self')) (LockinODMR_analyze_results g self' data)
    \<and> RabiSweep_acquire base1 g u (PyBool False) a self
        = map_sum id (\<lambda>d. (Analyzed d, self')) (RabiSweep_analyze_results g u self' data)
    \<and> LockinODMR_acquire base1 g (PyBool True) a self = Inr (Raw data, self')
    \<and> RabiSweep_acquire base1 g u (PyBool True) a self = Inr (Raw data, self')
    \<and> (raw \<noteq> PyBool False \<longrightarrow>
          LockinODMR_acquire base1 g raw a self = Inr (Raw data, self')
        \<and> RabiSweep_acquire base1 g u raw a self = Inr (Raw data, self')))
 \<and> (LockinODMR_acquire base1 g raw a self = Inr (Analyzed d, s) \<longrightarrow> raw = PyBool False)
 \<and> (RabiSweep_acquire base1 g u raw a self = Inr (Analyzed e, s) \<longrightarrow> raw = PyBool False)"
proof -
  have 1: "LockinODMR_acquire base1 g raw a self = LockinODMR_acquire base2 g raw a self
    \<and> RabiSweep_acquire base1 g u raw a self = RabiSweep_acquire base2 g u raw a self"
    if "\<forall>args self. base1 2 args self = base2 2 args self"
    using that by (simp add: LockinODMR_acquire_def RabiSweep_acquire_def)
  have 2: "LockinODMR_acquire base1 g (PyBool False) a self
        = map_sum id (\<lambda>d. (Analyzed d, self')) (LockinODMR_analyze_results g self' data)
    \<and> RabiSweep_acquire base1 g u (PyBool False) a self
        = map_sum id (\<lambda>d. (Analyzed d, self')) (RabiSweep_analyze_results g u self' data)
    \<and> LockinODMR_acquire base1 g (PyBool True) a self = Inr (Raw data, self')
    \<and> RabiSweep_acquire base1 g u (PyBool True) a self = Inr (Raw data, self')
    \<and> (raw \<noteq> PyBool False \<longrightarrow>
          LockinODMR_acquire base1 g raw a self = Inr (Raw data, self')
        \<and> RabiSweep_acquire base1 g u raw a self = Inr (Raw data, self'))"
    if "base1 2 a self = Inr (data, self')"
    using that
    by (auto simp: LockinODMR_acquire_def RabiSweep_acquire_def bind_err_def split: sum.splits)
  have 3: "raw = PyBool False" if "LockinODMR_acquire base1 g raw a self = Inr (Analyzed d, s)"
    using that
    by (auto simp: LockinODMR_acquire_def bind_err_def split: sum.splits if_splits)
  have 4: "raw = PyBool False" if "RabiSweep_acquire base1 g u raw a self = Inr (Analyzed e, s)"
    using that
    by (auto simp: RabiSweep_acquire_def bind_err_def split: sum.splits if_splits)
  show ?thesis using 1 2 3 4 by blast
qed

text \<open>
  The theorem on the example base class: raw data for \<open>True\<close> and for \<open>0\<close>, the
  analysis for \<open>False\<close>.
\<close>

theorem acquire_two_reads_and_raw_data_witness:
  "LockinODMR_acquire example_base_acquire example_get_sweep_pts (PyBool True) ()
     (example_program [])
     = Inr (Raw [1, 2, 3, 4], (example_program [])\<lparr>data_shape := [2, 2]\<rparr>)
 \<and> LockinODMR_acquire example_base_acquire example_get_sweep_pts (PyNumber 0) ()
     (example_program [])
     = Inr (Raw [1, 2, 3, 4], (example_program [])\<lparr>data_shape := [2, 2]\<rparr>)
 \<and> LockinODMR_acquire example_base_acquire example_get_sweep_pts (PyBool False) ()
     (example_program [])
     = map_sum id (\<lambda>d. (Analyzed d, (example_program [])\<lparr>data_shape := [2, 2]\<rparr>))
         (LockinODMR_analyze_results example_get_sweep_pts
            ((example_program [])\<lparr>data_shape := [2, 2]\<rparr>) [1, 2, 3, 4])"
proof -
  have u: "map rat_of_nat [Suc 0..<5] = [1, 2, 3, 4]" by (simp add: upt_rec)
  have b: "example_base_acquire 2 () (example_program [])
          = Inr ([1, 2, 3, 4], (example_program [])\<lparr>data_shape := [2, 2]\<rparr>)"
    by (simp add: example_base_acquire_def u)
  have n: "PyNumber 0 \<noteq> PyBool False" by simp
  from acquire_two_reads_and_raw_data[of example_base_acquire example_base_acquire
         example_get_sweep_pts "PyNumber 0" "()" "example_program []" 1
         "[1, 2, 3, 4]" "(example_program [])\<lparr>data_shape := [2, 2]\<rparr>"] b n
  show ?thesis by blast
qed

section \<open>Properties of the analysis on the memory\<close>

lemma bind_err_Inr: "bind_err m f = Inr y \<Longrightarrow> \<exists>x. m = Inr x \<and> f x = Inr y"
  by (cases m) (simp_all add: bind_err_def)

lemma grows_refl [simp]: "grows h h"
  by (simp add: grows_def)

lemma grows_trans: "grows h1 h2 \<Longrightarrow> grows h2 h3 \<Longrightarrow> grows h1 h3"
proof -
  assume a: "grows h1 h2" "grows h2 h3"
  then have l: "length h1 \<le> length h2" "length h2 \<le> length h3" by (simp_all add: grows_def)
  have "take (length h1) h3 = take (length h1) (take (length h2) h3)"
    using l by (simp add: min_def)
  also have "\<dots> = take (length h1) h2" using a(2) by (simp add: grows_def)
  also have "\<dots> = h1" using a(1) by (simp add: grows_def)
  finally show ?thesis using l by (simp add: grows_def)
qed

lemma grows_length: "grows h h' \<Longrightarrow> length h \<le> length h'"
  by (simp add: grows_def)

lemma grows_nth: "grows h h' \<Longrightarrow> b < length h \<Longrightarrow> h' ! b = h ! b"
proof -
  assume a: "grows h h'" "b < length h"
  then have "take (length h) h' ! b = h' ! b" by simp
  with a show ?thesis by (simp add: grows_def)
qed

lemma h_alloc_grows:
  assumes "h_alloc v h = (a, h')"
  shows "grows h h' \<and> base a = length h"
  using assms by (auto simp: h_alloc_def grows_def)

lemma h_mean0_grows:
  assumes "h_mean0 a h = Inr (b, h')"
  shows "grows h h' \<and> base b = length h"
  using assms by (auto simp: h_mean0_def split: sum.splits dest: h_alloc_grows)

lemma h_index_last_base: "h_index_last i a = Inr b \<Longrightarrow> base b = base a"
  by (auto simp: h_index_last_def split: if_splits)

lemma h_reshape_base: "h_reshape a sh = Inr b \<Longrightarrow> base b = base a"
  by (auto simp: h_reshape_def split: if_splits)

lemma LockinODMR_mean_loop_heap_Suc:
  assumes "LockinODMR_mean_loop_heap (Suc n) (od, s, r, c) h = Inr res"
  shows "\<exists>od1 h1 s1 h2 r1 h3 c1 h4.
           h_mean0 od h = Inr (od1, h1) \<and> h_mean0 s h1 = Inr (s1, h2)
         \<and> h_mean0 r h2 = Inr (r1, h3) \<and> h_mean0 c h3 = Inr (c1, h4)
         \<and> LockinODMR_mean_loop_heap n (od1, s1, r1, c1) h4 = Inr res"
  using assms by (auto simp: bind_err_def split: sum.splits prod.splits)

lemma RabiSweep_mean_loop_heap_Suc:
  assumes "RabiSweep_mean_loop_heap (Suc n) (s, r) h = Inr res"
  shows "\<exists>s1 h1 r1 h2.
           h_mean0 s h = Inr (s1, h1) \<and> h_mean0 r h1 = Inr (r1, h2)
         \<and> RabiSweep_mean_loop_heap n (s1, r1) h2 = Inr res"
  using assms by (auto simp: bind_err_def split: sum.splits prod.splits)

lemma LockinODMR_mean_loop_heap_grows:
  assumes "LockinODMR_mean_loop_heap n (od, s, r, c) h = Inr ((od', s', r', c'), h')"
    and "N \<le> base od" "N \<le> base s" "N \<le> base r" "N \<le> base c" "N \<le> length h"
  shows "grows h h' \<and> N \<le> base od' \<and> N \<le> base s' \<and> N \<le> base r' \<and> N \<le> base c'"
  using assms
proof (induction n arbitrary: od s r c h)
  case 0
  then show ?case by simp
next
  case (Suc n)
  from LockinODMR_mean_loop_heap_Suc[OF Suc.prems(1)] obtain od1 h1 s1 h2 r1 h3 c1 h4 where
    1: "h_mean0 od h = Inr (od1, h1)" and 2: "h_mean0 s h1 = Inr (s1, h2)"
    and 3: "h_mean0 r h2 = Inr (r1, h3)" and 4: "h_mean0 c h3 = Inr (c1, h4)"
    and r4: "LockinODMR_mean_loop_heap n (od1, s1, r1, c1) h4 = Inr ((od', s', r', c'), h')"
    by blast
  note g1 = h_mean0_grows[OF 1] and g2 = h_mean0_grows[OF 2]
    and g3 = h_mean0_grows[OF 3] and g4 = h_mean0_grows[OF 4]
  have l: "length h \<le> length h1" "length h1 \<le> length h2" "length h2 \<le> length h3"
    "length h3 \<le> length h4"
    using g1 g2 g3 g4 by (simp_all add: grows_length)
  have "grows h4 h' \<and> N \<le> base od' \<and> N \<le> base s' \<and> N \<le> base r' \<and> N \<le> base c'"
    using Suc.prems(6) g1 g2 g3 g4 l by (intro Suc.IH[OF r4]) simp_all
  moreover have "grows h h4"
    using g1 g2 g3 g4 by (blast intro: grows_trans)
  ultimately show ?case by (blast intro: grows_trans)
qed

lemma RabiSweep_mean_loop_heap_grows:
  assumes "RabiSweep_mean_loop_heap n (s, r) h = Inr ((s', r'), h')"
    and "N \<le> base s" "N \<le> base r" "N \<le> length h"
  shows "grows h h' \<and> N \<le> base s' \<and> N \<le> base r'"
  using assms
proof (induction n arbitrary: s r h)
  case 0
  then show ?case by simp
next
  case (Suc n)
  from RabiSweep_mean_loop_heap_Suc[OF Suc.prems(1)] obtain s1 h1 r1 h2 where
    1: "h_mean0 s h = Inr (s1, h1)" and 2: "h_mean0 r h1 = Inr (r1, h2)"
    and r2: "RabiSweep_mean_loop_heap n (s1, r1) h2 = Inr ((s', r'), h')"
    by blast
  note g1 = h_mean0_grows[OF 1] and g2 = h_mean0_grows[OF 2]
  have l: "length h \<le> length h1" "length h1 \<le> length h2"
    using g1 g2 by (simp_all add: grows_length)
  have "grows h2 h' \<and> N \<le> base s' \<and> N \<le> base r'"
    using Suc.prems(4) g1 g2 l by (intro Suc.IH[OF r2]) simp_all
  moreover have "grows h h2"
    using g1 g2 by (blast intro: grows_trans)
  ultimately show ?case by (blast intro: grows_trans)
qed

lemma LockinODMR_analyze_results_steps_Inr:
  assumes "LockinODMR_analyze_results_steps g self h data = Inr (d, h')"
  shows "\<exists>data1 treg data2 h1 s0 r0 odmr0 h2 diff h3 ratio h4 c0 h5 od s r c fr.
           h_reshape data (data_shape self) = Inr data1
         \<and> readout_integration_treg (cfg self) = Some treg
         \<and> h_divide_scalar data1 treg h = (data2, h1)
         \<and> (length (data_shape self) = 2 \<or> length (data_shape self) = 3
              \<or> length (data_shape self) = 4)
         \<and> h_index_last 0 data2 = Inr s0 \<and> h_index_last 1 data2 = Inr r0
         \<and> h_subtract s0 r0 h1 = (odmr0, h2) \<and> h_subtract s0 r0 h2 = (diff, h3)
         \<and> h_divide diff r0 h3 = (ratio, h4) \<and> h_multiply_scalar ratio 100 h4 = (c0, h5)
         \<and> LockinODMR_mean_loop_heap (length (ashape odmr0) - 1) (odmr0, s0, r0, c0) h5
             = Inr ((od, s, r, c), h')
         \<and> (case qick_sweeps self of [] \<Rightarrow> Inl IndexError | sw # _ \<Rightarrow> Inr (g sw)) = Inr fr
         \<and> d = \<lparr>h_odmr = od, h_signal = s, h_reference = r, h_odmr_contrast = c,
                 h_frequencies = fr\<rparr>"
  using assms
  unfolding LockinODMR_analyze_results_steps_def LockinODMR_separate_heap_def attr_def
  by (auto simp: bind_err_def split: sum.splits prod.splits if_splits option.splits)

lemma RabiSweep_analyze_results_steps_Inr:
  assumes "RabiSweep_analyze_results_steps g u self h data = Inr (d, h')"
  shows "\<exists>data1 treg data2 h1 s0 r0 s r h2 diff h3 ratio h4 c pts.
           h_reshape data (data_shape self) = Inr data1
         \<and> readout_integration_treg (cfg self) = Some treg
         \<and> h_divide_scalar data1 treg h = (data2, h1)
         \<and> (length (data_shape self) = 2 \<or> length (data_shape self) = 3
              \<or> length (data_shape self) = 4)
         \<and> h_index_last 0 data2 = Inr s0 \<and> h_index_last 1 data2 = Inr r0
         \<and> RabiSweep_mean_loop_heap (length (ashape s0) - 1) (s0, r0) h1 = Inr ((s, r), h2)
         \<and> h_subtract s r h2 = (diff, h3)
         \<and> h_divide diff r h3 = (ratio, h4) \<and> h_multiply_scalar ratio 100 h4 = (c, h')
         \<and> (case qick_sweeps self of [] \<Rightarrow> Inl IndexError | sw # _ \<Rightarrow> Inr (g sw)) = Inr pts
         \<and> d = \<lparr>h_rabi_signal = s, h_rabi_reference = r, h_contrast = c,
                 h_sweep_treg = pts, h_sweep_tus = map (\<lambda>x. x * u) pts\<rparr>"
  using assms
  unfolding RabiSweep_analyze_results_steps_def RabiSweep_separate_heap_def attr_def
  by (auto simp: bind_err_def split: sum.splits prod.splits if_splits option.splits list.splits)

lemma LockinODMR_analyze_results_steps_grows:
  assumes "LockinODMR_analyze_results_steps g self h data = Inr (d, h')"
  shows "grows h h' \<and> length h \<le> base (h_odmr d) \<and> length h \<le> base (h_signal d)
       \<and> length h \<le> base (h_reference d) \<and> length h \<le> base (h_odmr_contrast d)"
proof -
  from LockinODMR_analyze_results_steps_Inr[OF assms]
  obtain data1 treg data2 h1 s0 r0 odmr0 h2 diff h3 ratio h4 c0 h5 od s r c fr where
    a1: "h_divide_scalar data1 treg h = (data2, h1)"
    and sep: "h_index_last 0 data2 = Inr s0" "h_index_last 1 data2 = Inr r0"
    and a2: "h_subtract s0 r0 h1 = (odmr0, h2)" and a3: "h_subtract s0 r0 h2 = (diff, h3)"
    and a4: "h_divide diff r0 h3 = (ratio, h4)"
    and a5: "h_multiply_scalar ratio 100 h4 = (c0, h5)"
    and loop: "LockinODMR_mean_loop_heap (length (ashape odmr0) - 1) (odmr0, s0, r0, c0) h5
             = Inr ((od, s, r, c), h')"
    and d: "d = \<lparr>h_odmr = od, h_signal = s, h_reference = r, h_odmr_contrast = c,
                 h_frequencies = fr\<rparr>"
    by blast
  note g1 = h_alloc_grows[OF a1[unfolded h_divide_scalar_def]]
    and g2 = h_alloc_grows[OF a2[unfolded h_subtract_def]]
    and g3 = h_alloc_grows[OF a3[unfolded h_subtract_def]]
    and g4 = h_alloc_grows[OF a4[unfolded h_divide_def]]
    and g5 = h_alloc_grows[OF a5[unfolded h_multiply_scalar_def]]
  have l: "length h \<le> length h1" "length h1 \<le> length h2" "length h2 \<le> length h3"
    "length h3 \<le> length h4" "length h4 \<le> length h5"
    using g1 g2 g3 g4 g5 by (simp_all add: grows_length)
  have b: "base s0 = length h" "base r0 = length h"
    using sep g1 by (simp_all add: h_index_last_base)
  have "grows h5 h' \<and> length h \<le> base od \<and> length h \<le> base s \<and> length h \<le> base r
          \<and> length h \<le> base c"
    using l g2 g5 b by (intro LockinODMR_mean_loop_heap_grows[OF loop]) simp_all
  moreover have "grows h h5"
    using g1 g2 g3 g4 g5 by (blast intro: grows_trans)
  ultimately show ?thesis unfolding d by (auto intro: grows_trans)
qed

lemma RabiSweep_analyze_results_steps_grows:
  assumes "RabiSweep_analyze_results_steps g u self h data = Inr (d, h')"
  shows "grows h h' \<and> length h \<le> base (h_rabi_signal d)
       \<and> length h \<le> base (h_rabi_reference d) \<and> length h \<le> base (h_contrast d)"
proof -
  from RabiSweep_analyze_results_steps_Inr[OF assms]
  obtain data1 treg data2 h1 s0 r0 s r h2 diff h3 ratio h4 c pts where
    a1: "h_divide_scalar data1 treg h = (data2, h1)"
    and sep: "h_index_last 0 data2 = Inr s0" "h_index_last 1 data2 = Inr r0"
    and loop: "RabiSweep_mean_loop_heap (length (ashape s0) - 1) (s0, r0) h1 = Inr ((s, r), h2)"
    and a3: "h_subtract s r h2 = (diff, h3)"
    and a4: "h_divide diff r h3 = (ratio, h4)"
    and a5: "h_multiply_scalar ratio 100 h4 = (c, h')"
    and d: "d = \<lparr>h_rabi_signal = s, h_rabi_reference = r, h_contrast = c,
                 h_sweep_treg = pts, h_sweep_tus = map (\<lambda>x. x * u) pts\<rparr>"
    by blast
  note g1 = h_alloc_grows[OF a1[unfolded h_divide_scalar_def]]
    and g3 = h_alloc_grows[OF a3[unfolded h_subtract_def]]
    and g4 = h_alloc_grows[OF a4[unfolded h_divide_def]]
    and g5 = h_alloc_grows[OF a5[unfolded h_multiply_scalar_def]]
  have b: "base s0 = length h" "base r0 = length h"
    using sep g1 by (simp_all add: h_index_last_base)
  have lp: "grows h1 h2 \<and> length h \<le> base s \<and> length h \<le> base r"
    using g1 b by (intro RabiSweep_mean_loop_heap_grows[OF loop]) (simp_all add: grows_length)
  have l: "length h \<le> length h1" "length h1 \<le> length h2" "length h2 \<le> length h3"
    "length h3 \<le> length h4"
    using g1 lp g3 g4 by (simp_all add: grows_length)
  have "grows h h'"
    using g1 lp g3 g4 g5 by (blast intro: grows_trans)
  moreover have "length h \<le> base c" using g5 l by simp
  ultimately show ?thesis using lp unfolding d by simp
qed

lemma LockinODMR_analyze_results_heap_frame:
  assumes "LockinODMR_analyze_results_heap g st data = (res, st')"
  shows "this st' = this st \<and> grows (memory st) (memory st')
       \<and> (\<forall>d. res = Inr d \<longrightarrow>
             length (memory st) \<le> base (h_odmr d) \<and> length (memory st) \<le> base (h_signal d)
           \<and> length (memory st) \<le> base (h_reference d)
           \<and> length (memory st) \<le> base (h_odmr_contrast d))"
proof (cases "LockinODMR_analyze_results_steps g (this st) (memory st) data")
  case (Inl e)
  with assms show ?thesis by (auto simp: LockinODMR_analyze_results_heap_def)
next
  case (Inr p)
  obtain d h where p: "p = (d, h)" by (cases p)
  from assms Inr p have r: "res = Inr d" "st' = st\<lparr>memory := h\<rparr>"
    by (auto simp: LockinODMR_analyze_results_heap_def)
  from LockinODMR_analyze_results_steps_grows[OF Inr[unfolded p]] r show ?thesis by simp
qed

lemma RabiSweep_analyze_results_heap_frame:
  assumes "RabiSweep_analyze_results_heap g u st data = (res, st')"
  shows "this st' = this st \<and> grows (memory st) (memory st')
       \<and> (\<forall>d. res = Inr d \<longrightarrow>
             length (memory st) \<le> base (h_rabi_signal d)
           \<and> length (memory st) \<le> base (h_rabi_reference d)
           \<and> length (memory st) \<le> base (h_contrast d))"
proof (cases "RabiSweep_analyze_results_steps g u (this st) (memory st) data")
  case (Inl e)
  with assms show ?thesis by (auto simp: RabiSweep_analyze_results_heap_def)
next
  case (Inr p)
  obtain d h where p: "p = (d, h)" by (cases p)
  from assms Inr p have r: "res = Inr d" "st' = st\<lparr>memory := h\<rparr>"
    by (auto simp: RabiSweep_analyze_results_heap_def)
  from RabiSweep_analyze_results_steps_grows[OF Inr[unfolded p]] r show ?thesis by simp
qed

subsection \<open>The analysis on the memory computes what the analysis on values computes\<close>

lemma sim_bind:
  assumes "sim R m m'" and "\<And>a v. R a v \<Longrightarrow> sim S (f a) (f' v)"
  shows "sim S (bind_err m f) (bind_err m' f')"
proof (cases m')
  case (Inl e)
  then show ?thesis using assms(1) by (simp add: sim_def bind_err_def)
next
  case (Inr v)
  with assms(1) obtain a where "m = Inr a" "R a v"
    by (auto simp: sim_def split: sum.splits)
  with assms(2)[of a v] Inr show ?thesis by (simp add: bind_err_def)
qed

lemma sim_Inr: "R a v \<Longrightarrow> sim R (Inr a) (Inr v)"
  by (simp add: sim_def)

lemma sim_Inl: "sim R (Inl e) (Inl e)"
  by (simp add: sim_def)

lemma h_read_grows: "grows h h' \<Longrightarrow> base a < length h \<Longrightarrow> h_read h' a = h_read h a"
  by (simp add: h_read_def grows_nth)

lemma rep_grows: "rep h a v \<Longrightarrow> grows h h' \<Longrightarrow> rep h' a v"
  using grows_length[of h h'] by (auto simp: rep_def h_read_grows)

lemma rep_alloc:
  assumes "h_alloc v h = (a, h')"
  shows "rep h' a v \<and> grows h h'"
proof -
  have "map (\<lambda>i. (h @ [elems v]) ! length h ! i) [0..<length (elems v)] = elems v"
    by (simp add: map_nth)
  then show ?thesis
    using assms h_alloc_grows[OF assms] by (auto simp: rep_def h_alloc_def h_read_def)
qed

lemma rep_divide_scalar:
  assumes "rep h a v" "h_divide_scalar a t h = (b, h')"
  shows "rep h' b (np_divide_scalar v t) \<and> grows h h'"
  using assms rep_alloc[of "np_divide_scalar (h_read h a) t" h b h']
  by (simp add: rep_def h_divide_scalar_def)

lemma rep_multiply_scalar:
  assumes "rep h a v" "h_multiply_scalar a t h = (b, h')"
  shows "rep h' b (np_multiply_scalar v t) \<and> grows h h'"
  using assms rep_alloc[of "np_multiply_scalar (h_read h a) t" h b h']
  by (simp add: rep_def h_multiply_scalar_def)

lemma rep_subtract:
  assumes "rep h a v" "rep h b w" "h_subtract a b h = (c, h')"
  shows "rep h' c (np_subtract v w) \<and> grows h h'"
  using assms rep_alloc[of "np_subtract (h_read h a) (h_read h b)" h c h']
  by (simp add: rep_def h_subtract_def)

lemma rep_divide:
  assumes "rep h a v" "rep h b w" "h_divide a b h = (c, h')"
  shows "rep h' c (np_divide v w) \<and> grows h h'"
  using assms rep_alloc[of "np_divide (h_read h a) (h_read h b)" h c h']
  by (simp add: rep_def h_divide_def)

lemma sim_mean0:
  assumes "rep h a v"
  shows "sim (\<lambda>(b, h') w. rep h' b w \<and> grows h h') (h_mean0 a h) (np_mean0 v)"
proof (cases "np_mean0 v")
  case (Inl e)
  then show ?thesis using assms by (simp add: sim_def h_mean0_def rep_def)
next
  case (Inr w)
  obtain b h' where al: "h_alloc w h = (b, h')" by (cases "h_alloc w h")
  then have "h_mean0 a h = Inr (b, h')"
    using Inr assms by (simp add: h_mean0_def rep_def)
  then show ?thesis using Inr rep_alloc[OF al] by (simp add: sim_def)
qed

lemma sim_index_last:
  assumes "rep h a v" "length (index a) = prod_list (ashape a)"
  shows "sim (\<lambda>b w. rep h b w) (h_index_last i a) (index_last i v)"
proof -
  have sh: "shape v = ashape a" and el: "elems v = map (\<lambda>j. h ! base a ! j) (index a)"
    using assms(1) by (auto simp: rep_def h_read_def)
  show ?thesis
  proof (cases "ashape a \<noteq> [] \<and> i < last (ashape a)")
    case False
    then show ?thesis by (auto simp: sim_def h_index_last_def index_last_def sh)
  next
    case True
    have "map (\<lambda>j. h ! base a ! j)
            (map (\<lambda>k. index a ! (k * last (ashape a) + i)) [0..<prod_list (butlast (ashape a))])
        = map (\<lambda>k. map (\<lambda>j. h ! base a ! j) (index a) ! (k * last (ashape a) + i))
            [0..<prod_list (butlast (ashape a))]"
    proof -
      have "k * last (ashape a) + i < length (index a)"
        if "k < prod_list (butlast (ashape a))" for k
      proof -
        have "k * last (ashape a) + i < Suc k * last (ashape a)" using True by simp
        also have "\<dots> \<le> prod_list (butlast (ashape a)) * last (ashape a)"
          using that by (intro mult_le_mono1) simp
        also have "\<dots> = prod_list (butlast (ashape a) @ [last (ashape a)])" by simp
        also have "\<dots> = prod_list (ashape a)" using True by simp
        finally show ?thesis using assms(2) by simp
      qed
      then show ?thesis by simp
    qed
    then show ?thesis
      using True assms(1)
      by (simp add: sim_def h_index_last_def index_last_def sh el rep_def h_read_def)
  qed
qed

lemma sim_mono:
  assumes "sim R m m'" and "\<And>a v. R a v \<Longrightarrow> R' a v"
  shows "sim R' m m'"
  using assms by (auto simp: sim_def split: sum.splits)

lemma sim_LockinODMR_mean_loop:
  assumes "rep h od vo" "rep h s vs" "rep h r vr" "rep h c vc"
  shows "sim (\<lambda>((od', s', r', c'), h') (vo', vs', vr', vc').
               rep h' od' vo' \<and> rep h' s' vs' \<and> rep h' r' vr' \<and> rep h' c' vc' \<and> grows h h')
           (LockinODMR_mean_loop_heap n (od, s, r, c) h)
           (LockinODMR_mean_loop n (vo, vs, vr, vc))"
  using assms
proof (induction n arbitrary: od s r c vo vs vr vc h)
  case 0
  then show ?case by (simp add: sim_def)
next
  case (Suc n)
  show ?case
    unfolding LockinODMR_mean_loop_heap.simps LockinODMR_mean_loop.simps prod.case
  proof (rule sim_bind[OF sim_mean0[OF Suc.prems(1)]], clarify)
    fix od1 h1 vo1 assume 1: "rep h1 od1 vo1" "grows h h1"
    show "sim (\<lambda>((od', s', r', c'), h') (vo', vs', vr', vc').
               rep h' od' vo' \<and> rep h' s' vs' \<and> rep h' r' vr' \<and> rep h' c' vc' \<and> grows h h')
            (bind_err (h_mean0 s h1) (\<lambda>(s', h2).
               bind_err (h_mean0 r h2) (\<lambda>(r', h3).
               bind_err (h_mean0 c h3) (\<lambda>(c', h4).
                 LockinODMR_mean_loop_heap n (od1, s', r', c') h4))))
            (bind_err (np_mean0 vs) (\<lambda>s'.
               bind_err (np_mean0 vr) (\<lambda>r'.
               bind_err (np_mean0 vc) (\<lambda>c'.
                 LockinODMR_mean_loop n (vo1, s', r', c')))))"
    proof (rule sim_bind[OF sim_mean0[OF rep_grows[OF Suc.prems(2) 1(2)]]], clarify)
      fix s1 h2 vs1 assume 2: "rep h2 s1 vs1" "grows h1 h2"
      have g2: "grows h h2" using 1(2) 2(2) by (rule grows_trans)
      show "sim (\<lambda>((od', s', r', c'), h') (vo', vs', vr', vc').
               rep h' od' vo' \<and> rep h' s' vs' \<and> rep h' r' vr' \<and> rep h' c' vc' \<and> grows h h')
            (bind_err (h_mean0 r h2) (\<lambda>(r', h3).
               bind_err (h_mean0 c h3) (\<lambda>(c', h4).
                 LockinODMR_mean_loop_heap n (od1, s1, r', c') h4)))
            (bind_err (np_mean0 vr) (\<lambda>r'.
               bind_err (np_mean0 vc) (\<lambda>c'.
                 LockinODMR_mean_loop n (vo1, vs1, r', c'))))"
      proof (rule sim_bind[OF sim_mean0[OF rep_grows[OF Suc.prems(3) g2]]], clarify)
        fix r1 h3 vr1 assume 3: "rep h3 r1 vr1" "grows h2 h3"
        have g3: "grows h h3" using g2 3(2) by (rule grows_trans)
        show "sim (\<lambda>((od', s', r', c'), h') (vo', vs', vr', vc').
               rep h' od' vo' \<and> rep h' s' vs' \<and> rep h' r' vr' \<and> rep h' c' vc' \<and> grows h h')
            (bind_err (h_mean0 c h3) (\<lambda>(c', h4).
                 LockinODMR_mean_loop_heap n (od1, s1, r1, c') h4))
            (bind_err (np_mean0 vc) (\<lambda>c'.
                 LockinODMR_mean_loop n (vo1, vs1, vr1, c')))"
        proof (rule sim_bind[OF sim_mean0[OF rep_grows[OF Suc.prems(4) g3]]], clarify)
          fix c1 h4 vc1 assume 4: "rep h4 c1 vc1" "grows h3 h4"
          have g4: "grows h h4" using g3 4(2) by (rule grows_trans)
          have r: "rep h4 od1 vo1" "rep h4 s1 vs1" "rep h4 r1 vr1"
            using 1 2 3 4 by (blast intro: rep_grows grows_trans)+
          show "sim (\<lambda>((od', s', r', c'), h') (vo', vs', vr', vc').
               rep h' od' vo' \<and> rep h' s' vs' \<and> rep h' r' vr' \<and> rep h' c' vc' \<and> grows h h')
              (LockinODMR_mean_loop_heap n (od1, s1, r1, c1) h4)
              (LockinODMR_mean_loop n (vo1, vs1, vr1, vc1))"
            by (rule sim_mono[OF Suc.IH[OF r 4(1)]]) (auto intro: grows_trans[OF g4])
        qed
      qed
    qed
  qed
qed

lemma sim_RabiSweep_mean_loop:
  assumes "rep h s vs" "rep h r vr"
  shows "sim (\<lambda>((s', r'), h') (vs', vr'). rep h' s' vs' \<and> rep h' r' vr' \<and> grows h h')
           (RabiSweep_mean_loop_heap n (s, r) h)
           (RabiSweep_mean_loop n (vs, vr))"
  using assms
proof (induction n arbitrary: s r vs vr h)
  case 0
  then show ?case by (simp add: sim_def)
next
  case (Suc n)
  show ?case
    unfolding RabiSweep_mean_loop_heap.simps RabiSweep_mean_loop.simps prod.case
  proof (rule sim_bind[OF sim_mean0[OF Suc.prems(1)]], clarify)
    fix s1 h1 vs1 assume 1: "rep h1 s1 vs1" "grows h h1"
    show "sim (\<lambda>((s', r'), h') (vs', vr'). rep h' s' vs' \<and> rep h' r' vr' \<and> grows h h')
            (bind_err (h_mean0 r h1) (\<lambda>(r', h2). RabiSweep_mean_loop_heap n (s1, r') h2))
            (bind_err (np_mean0 vr) (\<lambda>r'. RabiSweep_mean_loop n (vs1, r')))"
    proof (rule sim_bind[OF sim_mean0[OF rep_grows[OF Suc.prems(2) 1(2)]]], clarify)
      fix r1 h2 vr1 assume 2: "rep h2 r1 vr1" "grows h1 h2"
      have g2: "grows h h2" using 1(2) 2(2) by (rule grows_trans)
      have r: "rep h2 s1 vs1" using 1 2 by (blast intro: rep_grows)
      show "sim (\<lambda>((s', r'), h') (vs', vr'). rep h' s' vs' \<and> rep h' r' vr' \<and> grows h h')
              (RabiSweep_mean_loop_heap n (s1, r1) h2)
              (RabiSweep_mean_loop n (vs1, vr1))"
        by (rule sim_mono[OF Suc.IH[OF r 2(1)]]) (auto intro: grows_trans[OF g2])
    qed
  qed
qed

lemma sim_LockinODMR_separate:
  assumes inp: "base data < length h"
    and vals: "map (\<lambda>i. h ! base data ! i) (index data) = map Fin xs"
  shows "sim (\<lambda>((s0, r0), h1) (vs0, vr0). rep h1 s0 vs0 \<and> rep h1 r0 vr0 \<and> grows h h1)
           (LockinODMR_separate_heap self h data) (LockinODMR_separate self xs)"
proof -
  have len: "length (index data) = length xs"
    using arg_cong[OF vals, of length] by simp
  show ?thesis
  proof (cases "prod_list (data_shape self) = length xs")
    case False
    then show ?thesis
      by (simp add: sim_def LockinODMR_separate_heap_def LockinODMR_separate_def h_reshape_def
            np_reshape_def len bind_err_def)
  next
    case size: True
    show ?thesis
    proof (cases "readout_integration_treg (cfg self)")
      case None
      then show ?thesis
        using size
        by (simp add: sim_def LockinODMR_separate_heap_def LockinODMR_separate_def h_reshape_def
              np_reshape_def len bind_err_def attr_def)
    next
      case (Some treg)
      let ?data1 = "data\<lparr>ashape := data_shape self\<rparr>"
      let ?v1 = "\<lparr>shape = data_shape self, elems = map Fin xs\<rparr>"
      have r1: "rep h ?data1 ?v1"
        using inp vals by (simp add: rep_def h_read_def)
      obtain data2 h1 where a: "h_divide_scalar ?data1 treg h = (data2, h1)"
        by (cases "h_divide_scalar ?data1 treg h")
      note r2 = rep_divide_scalar[OF r1 a]
      have wf: "length (index data2) = prod_list (ashape data2)"
        using a size by (auto simp: h_divide_scalar_def h_alloc_def h_read_def np_divide_scalar_def len)
      have branch: "sim (\<lambda>((s0, r0), h1') (vs0, vr0). rep h1' s0 vs0 \<and> rep h1' r0 vr0 \<and> grows h h1')
          (bind_err (h_index_last 0 data2) (\<lambda>s.
             bind_err (h_index_last 1 data2) (\<lambda>r. Inr ((s, r), h1))))
          (bind_err (index_last 0 (np_divide_scalar ?v1 treg)) (\<lambda>s.
             bind_err (index_last 1 (np_divide_scalar ?v1 treg)) (\<lambda>r. Inr (s, r))))"
      proof (rule sim_bind[OF sim_index_last[OF conjunct1[OF r2] wf]])
        fix s0 vs0 assume s: "rep h1 s0 vs0"
        show "sim (\<lambda>((s0, r0), h1') (vs0, vr0). rep h1' s0 vs0 \<and> rep h1' r0 vr0 \<and> grows h h1')
               (bind_err (h_index_last 1 data2) (\<lambda>r. Inr ((s0, r), h1)))
               (bind_err (index_last 1 (np_divide_scalar ?v1 treg)) (\<lambda>r. Inr (vs0, r)))"
        proof (rule sim_bind[OF sim_index_last[OF conjunct1[OF r2] wf]])
          fix r0 vr0 assume "rep h1 r0 vr0"
          with s r2 show "sim (\<lambda>((s0, r0), h1') (vs0, vr0).
                     rep h1' s0 vs0 \<and> rep h1' r0 vr0 \<and> grows h h1')
                  (Inr ((s0, r0), h1)) (Inr (vs0, vr0))"
            by (simp add: sim_def)
        qed
      qed
      have "LockinODMR_separate_heap self h data =
          (if length (data_shape self) = 2 \<or> length (data_shape self) = 3
              \<or> length (data_shape self) = 4
           then bind_err (h_index_last 0 data2) (\<lambda>s.
                  bind_err (h_index_last 1 data2) (\<lambda>r. Inr ((s, r), h1)))
           else Inl UnboundLocalError)"
        using size Some a
        by (simp add: LockinODMR_separate_heap_def h_reshape_def len bind_err_def attr_def)
      moreover have "LockinODMR_separate self xs =
          (if length (data_shape self) = 2 \<or> length (data_shape self) = 3
              \<or> length (data_shape self) = 4
           then bind_err (index_last 0 (np_divide_scalar ?v1 treg)) (\<lambda>s.
                  bind_err (index_last 1 (np_divide_scalar ?v1 treg)) (\<lambda>r. Inr (s, r)))
           else Inl UnboundLocalError)"
        using size Some
        by (simp add: LockinODMR_separate_def np_reshape_def bind_err_def attr_def Let_def)
      ultimately show ?thesis using branch by (simp add: sim_Inl)
    qed
  qed
qed

lemma rep_shape: "rep h a v \<Longrightarrow> ashape a = shape v"
  by (auto simp: rep_def h_read_def)

lemma rep_read: "rep h a v \<Longrightarrow> h_read h a = v"
  by (simp add: rep_def)

lemma LockinODMR_memory_refines:
  assumes inp: "base data < length h"
    and vals: "map (\<lambda>i. h ! base data ! i) (index data) = map Fin xs"
  shows "sim (\<lambda>(d, h') r. read_odmr h' d = r)
           (LockinODMR_analyze_results_steps g self h data)
           (LockinODMR_analyze_results g self xs)"
proof -
  let ?f = "\<lambda>((signal0, reference0), h1).
       case h_subtract signal0 reference0 h1 of (odmr0, h2) \<Rightarrow>
       case h_subtract signal0 reference0 h2 of (diff, h3) \<Rightarrow>
       case h_divide diff reference0 h3 of (ratio, h4) \<Rightarrow>
       case h_multiply_scalar ratio 100 h4 of (odmr_contrast0, h5) \<Rightarrow>
       bind_err (LockinODMR_mean_loop_heap (length (ashape odmr0) - 1)
                   (odmr0, signal0, reference0, odmr_contrast0) h5) (\<lambda>((od, s, r, c), h6).
       bind_err (case qick_sweeps self of
                   [] \<Rightarrow> Inl IndexError
                 | sw # _ \<Rightarrow> Inr (g sw)) (\<lambda>fr.
         Inr (\<lparr>h_odmr = od, h_signal = s, h_reference = r, h_odmr_contrast = c,
               h_frequencies = fr\<rparr>, h6)))"
  let ?f' = "\<lambda>(signal0, reference0).
       let odmr0 = np_subtract signal0 reference0;
           odmr_contrast0 =
             np_multiply_scalar (np_divide (np_subtract signal0 reference0) reference0) 100
       in
       bind_err (LockinODMR_mean_loop (length (shape odmr0) - 1)
                   (odmr0, signal0, reference0, odmr_contrast0)) (\<lambda>(od, s, r, c).
       bind_err (case qick_sweeps self of
                   [] \<Rightarrow> Inl IndexError
                 | sw # _ \<Rightarrow> Inr (g sw)) (\<lambda>fr.
         Inr \<lparr>odmr = od, signal = s, reference = r, odmr_contrast = c, frequencies = fr\<rparr>))"
  have main: "sim (\<lambda>(d, h') r. read_odmr h' d = r) (?f a) (?f' v)"
    if R: "(\<lambda>((s0, r0), h1) (vs0, vr0). rep h1 s0 vs0 \<and> rep h1 r0 vr0 \<and> grows h h1) a v"
    for a v
  proof -
    obtain s0 r0 h1 where a: "a = ((s0, r0), h1)" by (cases a) auto
    obtain vs0 vr0 where v: "v = (vs0, vr0)" by (cases v)
    from R have s: "rep h1 s0 vs0" and r: "rep h1 r0 vr0" by (simp_all add: a v)
    obtain odmr0 h2 where a2: "h_subtract s0 r0 h1 = (odmr0, h2)"
      by (cases "h_subtract s0 r0 h1")
    note p2 = rep_subtract[OF s r a2]
    have s2: "rep h2 s0 vs0" and r2: "rep h2 r0 vr0"
      using s r p2 by (blast intro: rep_grows)+
    obtain diff h3 where a3: "h_subtract s0 r0 h2 = (diff, h3)"
      by (cases "h_subtract s0 r0 h2")
    note p3 = rep_subtract[OF s2 r2 a3]
    have r3: "rep h3 r0 vr0" using r2 p3 by (blast intro: rep_grows)
    obtain ratio h4 where a4: "h_divide diff r0 h3 = (ratio, h4)"
      by (cases "h_divide diff r0 h3")
    note p4 = rep_divide[OF conjunct1[OF p3] r3 a4]
    obtain c0 h5 where a5: "h_multiply_scalar ratio 100 h4 = (c0, h5)"
      by (cases "h_multiply_scalar ratio 100 h4")
    note p5 = rep_multiply_scalar[OF conjunct1[OF p4] a5]
    have g25: "grows h2 h5" using p3 p4 p5 by (blast intro: grows_trans)
    have q: "rep h5 odmr0 (np_subtract vs0 vr0)" "rep h5 s0 vs0" "rep h5 r0 vr0"
      using p2 s2 r2 g25 by (blast intro: rep_grows)+
    have sh: "length (ashape odmr0) = length (shape (np_subtract vs0 vr0))"
      using rep_shape[OF q(1)] by simp
    have inner: "sim (\<lambda>(d, h') r. read_odmr h' d = r)
          (bind_err (LockinODMR_mean_loop_heap (length (ashape odmr0) - 1)
                       (odmr0, s0, r0, c0) h5) (\<lambda>((od, s, r, c), h6).
           bind_err (case qick_sweeps self of
                       [] \<Rightarrow> Inl IndexError
                     | sw # _ \<Rightarrow> Inr (g sw)) (\<lambda>fr.
             Inr (\<lparr>h_odmr = od, h_signal = s, h_reference = r, h_odmr_contrast = c,
                   h_frequencies = fr\<rparr>, h6))))
          (bind_err (LockinODMR_mean_loop (length (shape (np_subtract vs0 vr0)) - 1)
                       (np_subtract vs0 vr0, vs0, vr0,
                        np_multiply_scalar (np_divide (np_subtract vs0 vr0) vr0) 100))
             (\<lambda>(od, s, r, c).
           bind_err (case qick_sweeps self of
                       [] \<Rightarrow> Inl IndexError
                     | sw # _ \<Rightarrow> Inr (g sw)) (\<lambda>fr.
             Inr \<lparr>odmr = od, signal = s, reference = r, odmr_contrast = c,
                  frequencies = fr\<rparr>)))"
      unfolding sh
    proof (rule sim_bind[OF sim_LockinODMR_mean_loop[OF q conjunct1[OF p5]]], clarify)
      fix od s r c h6 vo vs vr vc
      assume f: "rep h6 od vo" "rep h6 s vs" "rep h6 r vr" "rep h6 c vc"
      show "sim (\<lambda>(d, h') r. read_odmr h' d = r)
              (bind_err (case qick_sweeps self of
                         [] \<Rightarrow> Inl IndexError
                       | sw # _ \<Rightarrow> Inr (g sw)) (\<lambda>fr.
                 Inr (\<lparr>h_odmr = od, h_signal = s, h_reference = r, h_odmr_contrast = c,
                       h_frequencies = fr\<rparr>, h6)))
              (bind_err (case qick_sweeps self of
                         [] \<Rightarrow> Inl IndexError
                       | sw # _ \<Rightarrow> Inr (g sw)) (\<lambda>fr.
                 Inr \<lparr>odmr = vo, signal = vs, reference = vr, odmr_contrast = vc,
                      frequencies = fr\<rparr>))"
        using f
        by (cases "qick_sweeps self") (simp_all add: sim_def bind_err_def read_odmr_def rep_read)
    qed
    show ?thesis
      unfolding a v using inner by (simp add: a2 a3 a4 a5 Let_def)
  qed
  show ?thesis
    unfolding LockinODMR_analyze_results_steps_def LockinODMR_analyze_results_def
    by (rule sim_bind[OF sim_LockinODMR_separate[OF inp vals] main])
qed

lemma RabiSweep_separate_heap_eq:
  "RabiSweep_separate_heap self h data = LockinODMR_separate_heap self h data"
  by (simp add: RabiSweep_separate_heap_def LockinODMR_separate_heap_def)

lemma RabiSweep_memory_refines:
  assumes inp: "base data < length h"
    and vals: "map (\<lambda>i. h ! base data ! i) (index data) = map Fin xs"
  shows "sim (\<lambda>(d, h') r. read_rabi h' d = r)
           (RabiSweep_analyze_results_steps g u self h data)
           (RabiSweep_analyze_results g u self xs)"
proof -
  let ?k = "\<lambda>((s, r), h2).
       case h_subtract s r h2 of (diff, h3) \<Rightarrow>
       case h_divide diff r h3 of (ratio, h4) \<Rightarrow>
       case h_multiply_scalar ratio 100 h4 of (c, h5) \<Rightarrow>
       bind_err (case qick_sweeps self of
                   [] \<Rightarrow> Inl IndexError
                 | sw # _ \<Rightarrow> Inr (g sw)) (\<lambda>pts.
       bind_err (case qick_sweeps self of
                   [] \<Rightarrow> Inl IndexError
                 | sw # _ \<Rightarrow> Inr (map (\<lambda>x. x * u) (g sw))) (\<lambda>tus.
         Inr (\<lparr>h_rabi_signal = s, h_rabi_reference = r, h_contrast = c,
               h_sweep_treg = pts, h_sweep_tus = tus\<rparr>, h5)))"
  let ?k' = "\<lambda>(s, r).
       let c = np_multiply_scalar (np_divide (np_subtract s r) r) 100 in
       bind_err (case qick_sweeps self of
                   [] \<Rightarrow> Inl IndexError
                 | sw # _ \<Rightarrow> Inr (g sw)) (\<lambda>pts.
       bind_err (case qick_sweeps self of
                   [] \<Rightarrow> Inl IndexError
                 | sw # _ \<Rightarrow> Inr (map (\<lambda>x. x * u) (g sw))) (\<lambda>tus.
         Inr \<lparr>rabi_signal = s, rabi_reference = r, contrast = c,
              sweep_treg = pts, sweep_tus = tus\<rparr>))"
  let ?f = "\<lambda>((signal0, reference0), h1).
     bind_err (RabiSweep_mean_loop_heap (length (ashape signal0) - 1)
                 (signal0, reference0) h1) ?k"
  let ?f' = "\<lambda>(signal0, reference0).
     bind_err (RabiSweep_mean_loop (length (shape signal0) - 1) (signal0, reference0)) ?k'"
  have tail: "sim (\<lambda>(d, h') r. read_rabi h' d = r) (?k b) (?k' w)"
    if R: "(\<lambda>((s', r'), h') (vs', vr'). rep h' s' vs' \<and> rep h' r' vr' \<and> grows h1 h') b w"
    for b w h1
  proof -
    obtain s r h2 where b: "b = ((s, r), h2)" by (cases b) auto
    obtain vs vr where w: "w = (vs, vr)" by (cases w)
    from R have s: "rep h2 s vs" and r: "rep h2 r vr" by (simp_all add: b w)
    obtain diff h3 where a3: "h_subtract s r h2 = (diff, h3)"
      by (cases "h_subtract s r h2")
    note p3 = rep_subtract[OF s r a3]
    have r3: "rep h3 r vr" using r p3 by (blast intro: rep_grows)
    obtain ratio h4 where a4: "h_divide diff r h3 = (ratio, h4)"
      by (cases "h_divide diff r h3")
    note p4 = rep_divide[OF conjunct1[OF p3] r3 a4]
    obtain c h5 where a5: "h_multiply_scalar ratio 100 h4 = (c, h5)"
      by (cases "h_multiply_scalar ratio 100 h4")
    note p5 = rep_multiply_scalar[OF conjunct1[OF p4] a5]
    have g25: "grows h2 h5" using p3 p4 p5 by (blast intro: grows_trans)
    have q: "rep h5 s vs" "rep h5 r vr"
      using s r g25 by (blast intro: rep_grows)+
    show ?thesis
      unfolding b w using q p5
      by (cases "qick_sweeps self")
         (simp_all add: a3 a4 a5 Let_def sim_def bind_err_def read_rabi_def rep_read)
  qed
  have main: "sim (\<lambda>(d, h') r. read_rabi h' d = r) (?f a) (?f' v)"
    if R: "(\<lambda>((s0, r0), h1) (vs0, vr0). rep h1 s0 vs0 \<and> rep h1 r0 vr0 \<and> grows h h1) a v"
    for a v
  proof -
    obtain s0 r0 h1 where a: "a = ((s0, r0), h1)" by (cases a) auto
    obtain vs0 vr0 where v: "v = (vs0, vr0)" by (cases v)
    from R have s: "rep h1 s0 vs0" and r: "rep h1 r0 vr0" by (simp_all add: a v)
    have sh: "length (ashape s0) = length (shape vs0)"
      using rep_shape[OF s] by simp
    have "sim (\<lambda>(d, h') r. read_rabi h' d = r)
            (bind_err (RabiSweep_mean_loop_heap (length (shape vs0) - 1) (s0, r0) h1) ?k)
            (bind_err (RabiSweep_mean_loop (length (shape vs0) - 1) (vs0, vr0)) ?k')"
      by (rule sim_bind[OF sim_RabiSweep_mean_loop[OF s r] tail])
    then show ?thesis unfolding a v by (simp add: sh)
  qed
  show ?thesis
    unfolding RabiSweep_analyze_results_steps_def RabiSweep_analyze_results_def
      RabiSweep_separate_heap_eq RabiSweep_separate_eq
    by (rule sim_bind[OF sim_LockinODMR_separate[OF inp vals] main])
qed

text \<open>
  Read back from the memory, the outcome of either method on the memory is the outcome
  of the method on values: the same exception, or the same result.
\<close>

lemma LockinODMR_analyze_results_heap_agrees:
  assumes inp: "base data < length (memory st)"
    and vals: "map (\<lambda>i. memory st ! base data ! i) (index data) = map Fin xs"
  shows "map_sum id (read_odmr (memory (snd (LockinODMR_analyze_results_heap g st data))))
           (fst (LockinODMR_analyze_results_heap g st data))
         = LockinODMR_analyze_results g (this st) xs"
  using LockinODMR_memory_refines[OF inp vals, of g "this st"]
  by (auto simp: sim_def LockinODMR_analyze_results_heap_def split: sum.splits)

lemma RabiSweep_analyze_results_heap_agrees:
  assumes inp: "base data < length (memory st)"
    and vals: "map (\<lambda>i. memory st ! base data ! i) (index data) = map Fin xs"
  shows "map_sum id (read_rabi (memory (snd (RabiSweep_analyze_results_heap g u st data))))
           (fst (RabiSweep_analyze_results_heap g u st data))
         = RabiSweep_analyze_results g u (this st) xs"
  using RabiSweep_memory_refines[OF inp vals, of g u "this st"]
  by (auto simp: sim_def RabiSweep_analyze_results_heap_def split: sum.splits)

subsection \<open>C10: the input array and the configuration are left alone\<close>

text \<open>
  Claim C10. Let the input array live in a buffer of the memory. After
  \<open>analyze_results\<close> of either class, whether it returned or raised, the program object
  with its \<open>cfg\<close> is the same, the memory has only grown, and the input's buffer holds
  the values it held before. Every array of a returned result lives in a buffer that
  the call has allocated, so none is an alias of the input.
\<close>

theorem analyze_results_leaves_input_and_cfg:
  assumes inp: "base data < length (memory st)"
    and lock: "LockinODMR_analyze_results_heap g st data = (res, st')"
    and rabi: "RabiSweep_analyze_results_heap g u st data = (res2, st2)"
  shows "this st' = this st \<and> cfg (this st') = cfg (this st)
       \<and> grows (memory st) (memory st')
       \<and> memory st' ! base data = memory st ! base data
       \<and> (\<forall>d. res = Inr d \<longrightarrow>
             base (h_odmr d) \<noteq> base data \<and> base (h_signal d) \<noteq> base data
           \<and> base (h_reference d) \<noteq> base data \<and> base (h_odmr_contrast d) \<noteq> base data
           \<and> length (memory st) \<le> base (h_odmr d) \<and> length (memory st) \<le> base (h_signal d)
           \<and> length (memory st) \<le> base (h_reference d)
           \<and> length (memory st) \<le> base (h_odmr_contrast d))
       \<and> this st2 = this st \<and> cfg (this st2) = cfg (this st)
       \<and> grows (memory st) (memory st2)
       \<and> memory st2 ! base data = memory st ! base data
       \<and> (\<forall>e. res2 = Inr e \<longrightarrow>
             base (h_rabi_signal e) \<noteq> base data \<and> base (h_rabi_reference e) \<noteq> base data
           \<and> base (h_contrast e) \<noteq> base data
           \<and> length (memory st) \<le> base (h_rabi_signal e)
           \<and> length (memory st) \<le> base (h_rabi_reference e)
           \<and> length (memory st) \<le> base (h_contrast e))"
proof -
  note f1 = LockinODMR_analyze_results_heap_frame[OF lock]
  note f2 = RabiSweep_analyze_results_heap_frame[OF rabi]
  have n1: "memory st' ! base data = memory st ! base data"
    using f1 inp by (simp add: grows_nth)
  have n2: "memory st2 ! base data = memory st ! base data"
    using f2 inp by (simp add: grows_nth)
  have ne: "b \<noteq> base data" if "length (memory st) \<le> b" for b
    using that inp by simp
  show ?thesis using f1 f2 n1 n2 ne by simp
qed

text \<open>
  The theorem on two repetitions of one sweep point, the input being the only buffer:
  after either method buffer 0 is as it was, and so is the program object.
\<close>

theorem analyze_results_leaves_input_and_cfg_witness:
  "memory (snd (LockinODMR_analyze_results_heap example_get_sweep_pts
                  (example_state [2, 1, 2]) example_input)) ! 0
     = [Fin 2, Fin 1, Fin 1, Fin 2]
 \<and> memory (snd (RabiSweep_analyze_results_heap example_get_sweep_pts 1
                  (example_state [2, 1, 2]) example_input)) ! 0
     = [Fin 2, Fin 1, Fin 1, Fin 2]
 \<and> this (snd (LockinODMR_analyze_results_heap example_get_sweep_pts
                  (example_state [2, 1, 2]) example_input))
     = example_program [2, 1, 2]"
proof -
  have inp: "base example_input < length (memory (example_state [2, 1, 2]))"
    by (simp add: example_input_def example_state_def)
  have m: "memory (example_state [2, 1, 2]) ! base example_input = [Fin 2, Fin 1, Fin 1, Fin 2]"
    "this (example_state [2, 1, 2]) = example_program [2, 1, 2]" "base example_input = 0"
    by (simp_all add: example_input_def example_state_def)
  from analyze_results_leaves_input_and_cfg[where g = example_get_sweep_pts and u = 1
         and st = "example_state [2, 1, 2]" and data = example_input,
         OF inp surjective_pairing surjective_pairing] m
  show ?thesis by simp
qed

end
